theory Spec2Isabelle
  imports Main
begin

section \<open>Exceptions, the terminal and the file system\<close>

text \<open>
  The program is one Python file, \<^verbatim>\<open>main.py\<close>: \<^verbatim>\<open>convert_smiles\<close> drives an external
  chemistry toolkit and writes one file, \<^verbatim>\<open>interactive_conversion\<close> is the menu loop
  around it. Everything the code does beyond returning a value is explicit here: what is
  printed, what is read from the terminal, the files on disk, and every exception.

  The handlers of the source distinguish \<^verbatim>\<open>KeyboardInterrupt\<close> from the subclasses of
  \<^verbatim>\<open>Exception\<close>; \<^verbatim>\<open>except Exception\<close> does not catch the former. An \<open>Exception\<close> carries
  the text that \<^verbatim>\<open>str(e)\<close> gives.
\<close>

datatype exn = KeyboardInterrupt | Exception string

type_synonym 'a outcome = "exn + 'a"

text \<open>
  What the terminal delivers to one call of \<^verbatim>\<open>input()\<close>: a line (without its newline) or
  an interrupt. When the list is used up the terminal is closed and \<^verbatim>\<open>input()\<close> raises
  \<^verbatim>\<open>EOFError\<close>.
\<close>

datatype stdin_event = Line string | CtrlC

type_synonym fs = "string \<rightharpoonup> string"

record world =
  stdin :: "stdin_event list"
  stdout :: "string list"
  files :: fs

text \<open>
  \<open>stdout\<close> is the list of writes in order. \<^verbatim>\<open>print(s)\<close> writes \<open>s\<close> and a newline,
  the prompt of \<^verbatim>\<open>input(prompt)\<close> is written as it is.
\<close>

definition line :: "string \<Rightarrow> string" where
  "line s = s @ [CHR 0x0A]"

definition print :: "string \<Rightarrow> world \<Rightarrow> world" where
  "print s w = w\<lparr>stdout := stdout w @ [line s]\<rparr>"

definition input :: "string \<Rightarrow> world \<Rightarrow> world \<times> string outcome" where
  "input prompt w =
     (let w1 = w\<lparr>stdout := stdout w @ [prompt]\<rparr>
      in case stdin w1 of
           [] \<Rightarrow> (w1, Inl (Exception ''EOF when reading a line''))
         | CtrlC # rest \<Rightarrow> (w1\<lparr>stdin := rest\<rparr>, Inl KeyboardInterrupt)
         | Line s # rest \<Rightarrow> (w1\<lparr>stdin := rest\<rparr>, Inr s))"

definition os_path_exists :: "fs \<Rightarrow> string \<Rightarrow> bool" where
  "os_path_exists f p = (f p \<noteq> None)"

definition os_path_getsize :: "fs \<Rightarrow> string \<Rightarrow> nat outcome" where
  "os_path_getsize f p =
     (case f p of
        None \<Rightarrow> Inl (Exception ''No such file or directory'')
      | Some content \<Rightarrow> Inr (length content))"

section \<open>String operations of the source\<close>

text \<open>
  Characters are bytes here; \<^verbatim>\<open>strip\<close>, \<^verbatim>\<open>upper\<close>, \<^verbatim>\<open>lower\<close> and \<^verbatim>\<open>int\<close> are modelled on
  ASCII text: the ASCII white space of \<^verbatim>\<open>str.strip()\<close>, the 26 letters, the ten digits.
\<close>

definition is_space :: "char \<Rightarrow> bool" where
  "is_space c = (c \<in> set [CHR 0x09, CHR 0x0A, CHR 0x0B, CHR 0x0C, CHR 0x0D,
                           CHR 0x1C, CHR 0x1D, CHR 0x1E, CHR 0x1F, CHR 0x20])"

definition strip :: "string \<Rightarrow> string" where
  "strip s = rev (dropWhile is_space (rev (dropWhile is_space s)))"

definition ascii_lowercase :: string where
  "ascii_lowercase = ''abcdefghijklmnopqrstuvwxyz''"

definition ascii_uppercase :: string where
  "ascii_uppercase = ''ABCDEFGHIJKLMNOPQRSTUVWXYZ''"

definition upper :: "string \<Rightarrow> string" where
  "upper s = map (\<lambda>c. case map_of (zip ascii_lowercase ascii_uppercase) c of
                         Some d \<Rightarrow> d | None \<Rightarrow> c) s"

definition lower :: "string \<Rightarrow> string" where
  "lower s = map (\<lambda>c. case map_of (zip ascii_uppercase ascii_lowercase) c of
                         Some d \<Rightarrow> d | None \<Rightarrow> c) s"

definition endswith :: "string \<Rightarrow> string \<Rightarrow> bool" where
  "endswith s suffix =
     (length suffix \<le> length s \<and> drop (length s - length suffix) s = suffix)"

definition digit_char :: "nat \<Rightarrow> char" where
  "digit_char d = ''0123456789'' ! d"

fun str_nat :: "nat \<Rightarrow> string" where
  "str_nat n = (if n < 10 then [digit_char n]
                else str_nat (n div 10) @ [digit_char (n mod 10)])"

declare str_nat.simps [simp del]

definition str_int :: "int \<Rightarrow> string" where
  "str_int i = (if i < 0 then CHR ''-'' # str_nat (nat (- i)) else str_nat (nat i))"

definition is_digit :: "char \<Rightarrow> bool" where
  "is_digit c = (c \<in> set ''0123456789'')"

definition digit_val :: "char \<Rightarrow> nat" where
  "digit_val c =
     (case map_of (zip ''0123456789'' [0, 1, 2, 3, 4, 5, 6, 7, 8, 9]) c of
        Some d \<Rightarrow> d | None \<Rightarrow> 0)"

text \<open>
  The digit part of an integer literal accepted by \<^verbatim>\<open>int()\<close>: digits, with single
  underscores allowed between two digits.
\<close>

fun digits_ok :: "string \<Rightarrow> bool" where
  "digits_ok [] = False"
| "digits_ok [c] = is_digit c"
| "digits_ok (c # d # cs) =
     (is_digit c \<and> (if d = CHR ''_'' then digits_ok cs else digits_ok (d # cs)))"

definition digits_val :: "string \<Rightarrow> nat" where
  "digits_val s = foldl (\<lambda>acc c. if c = CHR ''_'' then acc else 10 * acc + digit_val c) 0 s"

text \<open>\<^verbatim>\<open>int(s)\<close>; \<open>None\<close> is \<^verbatim>\<open>ValueError\<close>.\<close>

definition py_int :: "string \<Rightarrow> int option" where
  "py_int s =
     (case strip s of
        [] \<Rightarrow> None
      | c # cs \<Rightarrow>
          if c = CHR ''-'' then (if digits_ok cs then Some (- int (digits_val cs)) else None)
          else if c = CHR ''+'' then (if digits_ok cs then Some (int (digits_val cs)) else None)
          else if digits_ok (c # cs) then Some (int (digits_val (c # cs)))
          else None)"

section \<open>The external toolkit\<close>

text \<open>
  The chemistry library is not part of the program; it is a parameter of the model. \<open>'m\<close>
  is the molecule handle, \<open>'i\<close> the image. A call that can fail returns an outcome. The
  calls that change the molecule in place return the molecule as it is afterwards;
  \<open>EmbedMolecule\<close> and \<open>MMFFOptimizeMolecule\<close> do so also when they raise, since the
  handler of the source goes on with that molecule. The writers act on the file system and
  may leave a file behind also when they raise. \<open>MolToSmiles\<close> and \<open>GetNumAtoms\<close> are
  the two accessors used for logging; they read the molecule and are taken not to raise.
\<close>

datatype embed_method = ETKDG | DefaultEmbed

record ('m, 'i) toolkit =
  MolFromSmiles :: "string \<Rightarrow> 'm option outcome"
  MolToSmiles :: "'m \<Rightarrow> string"
  GetNumAtoms :: "'m \<Rightarrow> nat"
  AddHs :: "'m \<Rightarrow> 'm outcome"
  Compute2DCoords :: "'m \<Rightarrow> 'm outcome"
  EmbedMolecule :: "'m \<Rightarrow> embed_method \<Rightarrow> 'm \<times> int outcome"
  MMFFOptimizeMolecule :: "'m \<Rightarrow> 'm \<times> int outcome"
  MolToImage :: "'m \<Rightarrow> int \<times> int \<Rightarrow> 'i outcome"
  save :: "'i \<Rightarrow> string \<Rightarrow> fs \<Rightarrow> fs \<times> unit outcome"
  MolToPDBFile :: "'m \<Rightarrow> string \<Rightarrow> fs \<Rightarrow> fs \<times> unit outcome"
  MolToMolFile :: "'m \<Rightarrow> string \<Rightarrow> fs \<Rightarrow> fs \<times> unit outcome"

section \<open>convert_smiles\<close>

text \<open>
  Lines 46 to 49: the ETKDG embedding and, when it returns \<open>-1\<close>, the embedding with the
  default method, whose return value the source does not bind.
\<close>

definition embed :: "('m, 'i) toolkit \<Rightarrow> 'm \<Rightarrow> world \<Rightarrow> world \<times> 'm \<times> unit outcome" where
  "embed tk mol_with_h w =
     (case EmbedMolecule tk mol_with_h ETKDG of
        (m1, Inl e) \<Rightarrow> (w, m1, Inl e)
      | (m1, Inr embed_result) \<Rightarrow>
          if embed_result = - 1 then
            (let w1 = print ''First embedding failed, trying alternative method...'' w
             in case EmbedMolecule tk m1 DefaultEmbed of
                  (m2, Inl e) \<Rightarrow> (w1, m2, Inl e)
                | (m2, Inr _) \<Rightarrow> (w1, m2, Inr ()))
          else (w, m1, Inr ()))"

text \<open>Lines 46 to 55: the body of the inner \<^verbatim>\<open>try\<close>.\<close>

definition try_3d :: "('m, 'i) toolkit \<Rightarrow> 'm \<Rightarrow> world \<Rightarrow> world \<times> 'm \<times> unit outcome" where
  "try_3d tk mol_with_h w =
     (case embed tk mol_with_h w of
        (w1, m2, Inl e) \<Rightarrow> (w1, m2, Inl e)
      | (w1, m2, Inr _) \<Rightarrow>
          (case MMFFOptimizeMolecule tk m2 of
             (m3, Inl e) \<Rightarrow> (w1, m3, Inl e)
           | (m3, Inr minimize_result) \<Rightarrow>
               (let w2 = (if minimize_result \<noteq> 0
                          then print ''Energy minimization may not have fully converged'' w1
                          else w1)
                in (print ''3D coordinates generated successfully'' w2, m3, Inr ()))))"

text \<open>
  Lines 43 to 61: the coordinates of the molecule with hydrogens. \<^verbatim>\<open>except Exception\<close>
  lets a \<^verbatim>\<open>KeyboardInterrupt\<close> pass.
\<close>

definition coordinates ::
  "('m, 'i) toolkit \<Rightarrow> bool \<Rightarrow> 'm \<Rightarrow> world \<Rightarrow> world \<times> 'm outcome" where
  "coordinates tk generate_3d mol_with_h w =
     (if generate_3d then
        (let w1 = print ''Generating 3D coordinates...'' w
         in case try_3d tk mol_with_h w1 of
              (w2, m, Inr _) \<Rightarrow> (w2, Inr m)
            | (w2, m, Inl KeyboardInterrupt) \<Rightarrow> (w2, Inl KeyboardInterrupt)
            | (w2, m, Inl (Exception e)) \<Rightarrow>
                (let w3 = print (''3D coordinate generation warning: '' @ e) w2;
                     w4 = print ''Using 2D coordinates...'' w3
                 in (w4, Compute2DCoords tk m)))
      else (w, Compute2DCoords tk mol_with_h))"

text \<open>Lines 63 to 69: the writer chosen by the format; no writer for any other format.\<close>

definition save_file ::
  "('m, 'i) toolkit \<Rightarrow> string \<Rightarrow> string \<Rightarrow> 'm \<Rightarrow> world \<Rightarrow> world \<times> unit outcome" where
  "save_file tk output_format output_file mol_with_h w =
     (if output_format = ''pdb'' then
        (let w1 = print (''Saving as PDB file: '' @ output_file) w;
             (f, r) = MolToPDBFile tk mol_with_h output_file (files w1)
         in (w1\<lparr>files := f\<rparr>, r))
      else if output_format = ''mol'' then
        (let w1 = print (''Saving as MOL file: '' @ output_file) w;
             (f, r) = MolToMolFile tk mol_with_h output_file (files w1)
         in (w1\<lparr>files := f\<rparr>, r))
      else (w, Inr ()))"

text \<open>Lines 30 to 37: the image branch.\<close>

definition save_png ::
  "('m, 'i) toolkit \<Rightarrow> string \<Rightarrow> int \<Rightarrow> 'm \<Rightarrow> world \<Rightarrow> world \<times> unit outcome" where
  "save_png tk output_file image_size mol w =
     (let w1 = print ''Generating 2D molecular image...'' w
      in case Compute2DCoords tk mol of
           Inl e \<Rightarrow> (w1, Inl e)
         | Inr m1 \<Rightarrow>
             (let w2 = print (''Saving as PNG image: '' @ output_file @ '' ('' @
                              str_int image_size @ ''x'' @ str_int image_size @ ''px)'') w1
              in case MolToImage tk m1 (image_size, image_size) of
                   Inl e \<Rightarrow> (w2, Inl e)
                 | Inr img \<Rightarrow>
                     (let (f, r) = save tk img output_file (files w2)
                      in (w2\<lparr>files := f\<rparr>, r))))"

text \<open>Lines 38 to 69: the branch of every other format.\<close>

definition save_structure ::
  "('m, 'i) toolkit \<Rightarrow> string \<Rightarrow> string \<Rightarrow> bool \<Rightarrow> 'm \<Rightarrow> world \<Rightarrow> world \<times> unit outcome" where
  "save_structure tk output_file output_format generate_3d mol w =
     (case AddHs tk mol of
        Inl e \<Rightarrow> (w, Inl e)
      | Inr mol_with_h \<Rightarrow>
          (let w1 = print (''Number of atoms after adding hydrogens: '' @
                           str_nat (GetNumAtoms tk mol_with_h)) w
           in case coordinates tk generate_3d mol_with_h w1 of
                (w2, Inl e) \<Rightarrow> (w2, Inl e)
              | (w2, Inr m) \<Rightarrow> save_file tk output_format output_file m w2))"

text \<open>Lines 30 to 69: the conversion steps after parsing.\<close>

definition write_output ::
  "('m, 'i) toolkit \<Rightarrow> string \<Rightarrow> string \<Rightarrow> bool \<Rightarrow> int \<Rightarrow> 'm \<Rightarrow> world
     \<Rightarrow> world \<times> unit outcome" where
  "write_output tk output_file output_format generate_3d image_size mol w =
     (if output_format = ''png'' then save_png tk output_file image_size mol w
      else save_structure tk output_file output_format generate_3d mol w)"

text \<open>
  The success criterion in the words of the specification: the output file exists and has
  non-zero size.
\<close>

definition output_present :: "fs \<Rightarrow> string \<Rightarrow> bool" where
  "output_present f p = (case f p of None \<Rightarrow> False | Some content \<Rightarrow> 0 < length content)"

text \<open>Lines 71 to 76: the check of the output file.\<close>

definition check_output :: "string \<Rightarrow> world \<Rightarrow> world \<times> bool outcome" where
  "check_output output_file w =
     (if os_path_exists (files w) output_file then
        (case os_path_getsize (files w) output_file of
           Inl e \<Rightarrow> (w, Inl e)
         | Inr n \<Rightarrow>
             if n > 0 then (print (''Conversion successful: '' @ output_file) w, Inr True)
             else (print ''Output file creation failed'' w, Inr False))
      else (print ''Output file creation failed'' w, Inr False))"

text \<open>Lines 20 to 76: the body of the outer \<^verbatim>\<open>try\<close>.\<close>

definition convert_try ::
  "('m, 'i) toolkit \<Rightarrow> string \<Rightarrow> string \<Rightarrow> string \<Rightarrow> bool \<Rightarrow> int \<Rightarrow> world
     \<Rightarrow> world \<times> bool outcome" where
  "convert_try tk smiles_string output_file output_format generate_3d image_size w =
     (let w1 = print (''Parsing SMILES: '' @ smiles_string) w
      in case MolFromSmiles tk smiles_string of
           Inl e \<Rightarrow> (w1, Inl e)
         | Inr None \<Rightarrow> (print ''Invalid SMILES string'' w1, Inr False)
         | Inr (Some mol) \<Rightarrow>
             (let w2 = print ''Successfully parsed SMILES'' w1;
                  w3 = print (''Molecular formula: '' @ MolToSmiles tk mol) w2;
                  w4 = print (''Number of atoms: '' @ str_nat (GetNumAtoms tk mol)) w3
              in case write_output tk output_file output_format generate_3d image_size mol w4 of
                   (w5, Inl e) \<Rightarrow> (w5, Inl e)
                 | (w5, Inr _) \<Rightarrow> check_output output_file w5))"

text \<open>
  Lines 7 to 80. The result is \<open>Inr b\<close> when the function returns \<open>b\<close>; the only exception
  that can leave it is a \<^verbatim>\<open>KeyboardInterrupt\<close>.
\<close>

definition convert_smiles ::
  "('m, 'i) toolkit \<Rightarrow> string \<Rightarrow> string \<Rightarrow> string \<Rightarrow> bool \<Rightarrow> int \<Rightarrow> world
     \<Rightarrow> world \<times> bool outcome" where
  "convert_smiles tk smiles_string output_file output_format generate_3d image_size w =
     (let w0 = print (''Converting SMILES to '' @ upper output_format @ '': '' @ smiles_string) w
      in case convert_try tk smiles_string output_file output_format generate_3d image_size w0 of
           (w1, Inl (Exception e)) \<Rightarrow> (print (''Conversion failed: '' @ e) w1, Inr False)
         | (w1, Inl KeyboardInterrupt) \<Rightarrow> (w1, Inl KeyboardInterrupt)
         | (w1, Inr b) \<Rightarrow> (w1, Inr b))"

text \<open>Lines 17 to 28: what is printed up to the atom count of a molecule that parsed.\<close>

definition parsed_lines :: "('m, 'i) toolkit \<Rightarrow> string \<Rightarrow> string \<Rightarrow> 'm \<Rightarrow> string list" where
  "parsed_lines tk smiles_string output_format mol =
     [line (''Converting SMILES to '' @ upper output_format @ '': '' @ smiles_string),
      line (''Parsing SMILES: '' @ smiles_string),
      line ''Successfully parsed SMILES'',
      line (''Molecular formula: '' @ MolToSmiles tk mol),
      line (''Number of atoms: '' @ str_nat (GetNumAtoms tk mol))]"

text \<open>Lines 78 to 80: the handler of the outer \<^verbatim>\<open>try\<close>, as it acts on an outcome.\<close>

definition except_handler :: "world \<times> bool outcome \<Rightarrow> world \<times> bool outcome" where
  "except_handler x =
     (case x of
        (w1, Inl (Exception e)) \<Rightarrow> (print (''Conversion failed: '' @ e) w1, Inr False)
      | (w1, Inl KeyboardInterrupt) \<Rightarrow> (w1, Inl KeyboardInterrupt)
      | (w1, Inr b) \<Rightarrow> (w1, Inr b))"

text \<open>
  Lines 71 to 80 as they act on the outcome of the conversion steps of lines 30 to 69: the
  check of the output file when the steps returned, all of it under the handler.
\<close>

definition after_steps :: "string \<Rightarrow> world \<times> unit outcome \<Rightarrow> world \<times> bool outcome" where
  "after_steps output_file x =
     except_handler
       (case x of
          (w5, Inl e) \<Rightarrow> (w5, Inl e)
        | (w5, Inr u) \<Rightarrow> check_output output_file w5)"

section \<open>interactive_conversion\<close>

text \<open>The pictographs at the head of some messages, as their UTF-8 bytes.\<close>

definition microscope :: string where
  "microscope = [CHR 0xF0, CHR 0x9F, CHR 0x94, CHR 0xAC]"

definition waving_hand :: string where
  "waving_hand = [CHR 0xF0, CHR 0x9F, CHR 0x91, CHR 0x8B]"

definition cross_mark :: string where
  "cross_mark = [CHR 0xE2, CHR 0x9D, CHR 0x8C]"

definition arrows :: string where
  "arrows = [CHR 0xF0, CHR 0x9F, CHR 0x94, CHR 0x84]"

definition check_mark :: string where
  "check_mark = [CHR 0xE2, CHR 0x9C, CHR 0x85]"

definition folder :: string where
  "folder = [CHR 0xF0, CHR 0x9F, CHR 0x93, CHR 0x81]"

definition invalid_size_message :: string where
  "invalid_size_message = cross_mark @ '' Invalid size, using default 200px''"

definition goodbye_message :: string where
  "goodbye_message = CHR 0x0A # waving_hand @ '' Goodbye!''"

definition interrupted_message :: string where
  "interrupted_message = [CHR 0x0A, CHR 0x0A] @ waving_hand @ '' Program interrupted. Goodbye!''"

definition error_message :: "string \<Rightarrow> string" where
  "error_message e = CHR 0x0A # cross_mark @ '' An error occurred: '' @ e"

text \<open>How an iteration of \<^verbatim>\<open>while True\<close> ends: \<^verbatim>\<open>break\<close>, or on to the next iteration.\<close>

datatype ctl = Break | Continue

text \<open>Lines 91 to 99: the menu, printed before the \<^verbatim>\<open>try\<close> of the iteration.\<close>

definition print_menu :: "world \<Rightarrow> world" where
  "print_menu w =
     foldl (\<lambda>v s. print s v) w
       [CHR 0x0A # replicate 60 CHR ''-'',
        ''Options:'',
        ''1. Convert SMILES to PDB (3D)'',
        ''2. Convert SMILES to PDB (2D)'',
        ''3. Convert SMILES to MOL (3D)'',
        ''4. Convert SMILES to MOL (2D)'',
        ''5. Convert SMILES to PNG (2D)'',
        ''6. Exit'',
        replicate 60 CHR ''-'']"

text \<open>Lines 130 to 140: the image size from the answer to the size prompt.\<close>

definition size_of_input :: "string \<Rightarrow> world \<Rightarrow> world \<times> int" where
  "size_of_input size_input w =
     (if size_input = [] then (w, 200)
      else case py_int size_input of
             None \<Rightarrow> (print invalid_size_message w, 200)
           | Some image_size \<Rightarrow>
               if image_size \<le> 0 then (print invalid_size_message w, 200)
               else (w, image_size))"

text \<open>Lines 125 to 129: what is written before the answer to the size prompt is read.\<close>

definition size_prompts :: "string list" where
  "size_prompts =
     [line (CHR 0x0A # replicate 40 CHR ''-''),
      line ''Enter image size in pixels (e.g., 400 for 400x400px)'',
      line (replicate 40 CHR ''-''),
      ''Image size (px) [default: 200px]: '']"

text \<open>Lines 125 to 140.\<close>

definition ask_size :: "world \<Rightarrow> world \<times> int outcome" where
  "ask_size w =
     (let w1 = print (CHR 0x0A # replicate 40 CHR ''-'') w;
          w2 = print ''Enter image size in pixels (e.g., 400 for 400x400px)'' w1;
          w3 = print (replicate 40 CHR ''-'') w2
      in case input ''Image size (px) [default: 200px]: '' w3 of
           (w4, Inl e) \<Rightarrow> (w4, Inl e)
         | (w4, Inr a) \<Rightarrow>
             (let (w5, image_size) = size_of_input (strip a) w4 in (w5, Inr image_size)))"

text \<open>
  Lines 119 to 151: format, extension, 3D flag and image size for a choice among
  \<open>1\<close> to \<open>5\<close>.
\<close>

definition settings :: "string \<Rightarrow> world \<Rightarrow> world \<times> (string \<times> string \<times> bool \<times> int) outcome" where
  "settings choice w =
     (if choice = ''5'' then
        (case ask_size w of
           (w1, Inl e) \<Rightarrow> (w1, Inl e)
         | (w1, Inr image_size) \<Rightarrow> (w1, Inr (''png'', ''.png'', False, image_size)))
      else if choice \<in> set [''1'', ''2''] then
        (w, Inr (''pdb'', ''.pdb'', choice = ''1'', 200))
      else (w, Inr (''mol'', ''.mol'', choice = ''3'', 200)))"

text \<open>Lines 155 to 158: the file name from the stripped answer.\<close>

definition output_name_of :: "string \<Rightarrow> string \<Rightarrow> string" where
  "output_name_of output_name default_ext =
     (if output_name = [] then ''output'' @ default_ext
      else if \<not> endswith output_name default_ext then output_name @ default_ext
      else output_name)"

text \<open>Lines 154 to 158.\<close>

definition ask_output_name :: "string \<Rightarrow> world \<Rightarrow> world \<times> string outcome" where
  "ask_output_name default_ext w =
     (case input (''Enter output filename (default: output'' @ default_ext @ ''): '') w of
        (w1, Inl e) \<Rightarrow> (w1, Inl e)
      | (w1, Inr a) \<Rightarrow> (w1, Inr (output_name_of (strip a) default_ext)))"

text \<open>Lines 175 to 177: what the answer to the continue prompt does.\<close>

definition continue_of :: "string \<Rightarrow> world \<Rightarrow> world \<times> ctl" where
  "continue_of continue_choice w =
     (if continue_choice \<notin> set [''y'', ''yes''] then (print goodbye_message w, Break)
      else (w, Continue))"

text \<open>Lines 173 and 174: what is written before the answer to the continue prompt is read.\<close>

definition continue_prompts :: "string list" where
  "continue_prompts =
     [line (CHR 0x0A # replicate 40 CHR ''-''), ''Perform another operation? (y/n): '']"

text \<open>Lines 173 to 177.\<close>

definition ask_continue :: "world \<Rightarrow> world \<times> ctl outcome" where
  "ask_continue w =
     (let w1 = print (CHR 0x0A # replicate 40 CHR ''-'') w
      in case input ''Perform another operation? (y/n): '' w1 of
           (w2, Inl e) \<Rightarrow> (w2, Inl e)
         | (w2, Inr a) \<Rightarrow>
             (let (w3, c) = continue_of (lower (strip a)) w2 in (w3, Inr c)))"

text \<open>Lines 160 to 177: the conversion, its banner and the continue prompt.\<close>

definition convert_and_ask ::
  "('m, 'i) toolkit \<Rightarrow> string \<Rightarrow> string \<Rightarrow> string \<Rightarrow> bool \<Rightarrow> int \<Rightarrow> world
     \<Rightarrow> world \<times> ctl outcome" where
  "convert_and_ask tk smiles output_name output_format generate_3d image_size w =
     (let w1 = print (CHR 0x0A # arrows @ '' Converting SMILES to '' @ upper output_format @
                      ''...'') w;
          w2 = print (replicate 40 CHR ''='') w1
      in case convert_smiles tk smiles output_name output_format generate_3d image_size w2 of
           (w3, Inl e) \<Rightarrow> (w3, Inl e)
         | (w3, Inr success) \<Rightarrow>
             (let w4 = (if success
                        then print (folder @ '' Output file: '' @ output_name)
                               (print (CHR 0x0A # check_mark @
                                       '' Operation completed successfully!'') w3)
                        else print (CHR 0x0A # cross_mark @ '' Operation failed!'') w3)
              in ask_continue w4))"

text \<open>Lines 102 to 177: the body of the \<^verbatim>\<open>try\<close> of one iteration.\<close>

definition iteration_try :: "('m, 'i) toolkit \<Rightarrow> world \<Rightarrow> world \<times> ctl outcome" where
  "iteration_try tk w =
     (case input ''Please select an option (1-6): '' w of
        (w1, Inl e) \<Rightarrow> (w1, Inl e)
      | (w1, Inr a) \<Rightarrow>
          (let choice = strip a in
           if choice = ''6'' then (print goodbye_message w1, Inr Break)
           else if choice \<notin> set [''1'', ''2'', ''3'', ''4'', ''5''] then
             (print (cross_mark @ '' Invalid choice. Please select 1-6.'') w1, Inr Continue)
           else
             (let w2 = print (CHR 0x0A # replicate 40 CHR ''='') w1
              in case input ''Enter SMILES string: '' w2 of
                   (w3, Inl e) \<Rightarrow> (w3, Inl e)
                 | (w3, Inr b) \<Rightarrow>
                     (let smiles = strip b in
                      if smiles = [] then
                        (print (cross_mark @ '' Please enter a valid SMILES string'') w3,
                         Inr Continue)
                      else
                        (case settings choice w3 of
                           (w4, Inl e) \<Rightarrow> (w4, Inl e)
                         | (w4, Inr (output_format, default_ext, generate_3d, image_size)) \<Rightarrow>
                             (case ask_output_name default_ext w4 of
                                (w5, Inl e) \<Rightarrow> (w5, Inl e)
                              | (w5, Inr output_name) \<Rightarrow>
                                  convert_and_ask tk smiles output_name output_format
                                    generate_3d image_size w5))))))"

text \<open>Lines 91 to 184: one iteration with its two handlers.\<close>

definition iteration :: "('m, 'i) toolkit \<Rightarrow> world \<Rightarrow> world \<times> ctl" where
  "iteration tk w =
     (case iteration_try tk (print_menu w) of
        (w1, Inl KeyboardInterrupt) \<Rightarrow> (print interrupted_message w1, Break)
      | (w1, Inl (Exception e)) \<Rightarrow> (print (error_message e) w1, Continue)
      | (w1, Inr c) \<Rightarrow> (w1, c))"

text \<open>
  Lines 90 to 184: \<^verbatim>\<open>while True\<close>. The loop need not end (a closed terminal raises
  \<^verbatim>\<open>EOFError\<close> at every prompt); \<open>None\<close> is the loop that runs forever, \<open>Some w\<close> the
  world when the loop is left.
\<close>

partial_function (option) menu_loop :: "('m, 'i) toolkit \<Rightarrow> world \<Rightarrow> world option" where
  "menu_loop tk w =
     (case iteration tk w of
        (w1, Break) \<Rightarrow> Some w1
      | (w1, Continue) \<Rightarrow> menu_loop tk w1)"

text \<open>Lines 82 to 184.\<close>

declare menu_loop.simps [code]

definition interactive_conversion :: "('m, 'i) toolkit \<Rightarrow> world \<Rightarrow> world option" where
  "interactive_conversion tk w =
     menu_loop tk
       (foldl (\<lambda>v s. print s v) w
          [replicate 60 CHR ''='',
           microscope @ '' Interactive Molecular Format Conversion Tool'',
           replicate 60 CHR ''='',
           ''This tool converts SMILES strings to PDB, MOL, or PNG files'',
           replicate 60 CHR ''=''])"

section \<open>Worlds that differ in the output only\<close>

text \<open>
  Worlds that differ in what has been printed only: the same pending input and the same
  files.
\<close>

definition same_io :: "world \<Rightarrow> world \<Rightarrow> bool" where
  "same_io w v = (stdin w = stdin v \<and> files w = files v)"

section \<open>A small toolkit and a terminal to run the program on\<close>

text \<open>
  A toolkit that knows three molecules and nothing else: ethanol (3 heavy atoms, 6
  hydrogens), benzene (6 and 6) and the sodium cation (1 atom, no hydrogen). It never
  raises, every embedding and minimization succeeds, and each writer stores a short text.
\<close>

datatype coords = NoCoords | Coords2D | Coords3D

record stub_mol =
  canonical :: string
  atoms :: nat
  implicit_hs :: nat
  conformer :: coords

text \<open>
  Modelled from the spec: the hydrogen addition of the external toolkit (\<^verbatim>\<open>Chem.AddHs\<close>),
  which is not part of the repository. The specification says that it adds explicit
  hydrogens to the molecule and produces a new molecule: every hydrogen that is implicit in
  the molecule becomes an atom of the new molecule, and no other atom is added or removed.
\<close>

definition add_hydrogens :: "stub_mol \<Rightarrow> stub_mol" where
  "add_hydrogens m = m\<lparr>atoms := atoms m + implicit_hs m, implicit_hs := 0\<rparr>"

definition stub_parse :: "string \<Rightarrow> stub_mol option" where
  "stub_parse s =
     map_of
       [(''CCO'', \<lparr>canonical = ''CCO'', atoms = 3, implicit_hs = 6, conformer = NoCoords\<rparr>),
        (''c1ccccc1'',
           \<lparr>canonical = ''c1ccccc1'', atoms = 6, implicit_hs = 6, conformer = NoCoords\<rparr>),
        (''[Na+]'', \<lparr>canonical = ''[Na+]'', atoms = 1, implicit_hs = 0, conformer = NoCoords\<rparr>)]
       s"

definition stub_toolkit :: "(stub_mol, int \<times> int) toolkit" where
  "stub_toolkit =
     \<lparr>MolFromSmiles = (\<lambda>s. Inr (stub_parse s)),
      MolToSmiles = canonical,
      GetNumAtoms = atoms,
      AddHs = (\<lambda>m. Inr (add_hydrogens m)),
      Compute2DCoords = (\<lambda>m. Inr (m\<lparr>conformer := Coords2D\<rparr>)),
      EmbedMolecule = (\<lambda>m method. (m\<lparr>conformer := Coords3D\<rparr>, Inr 0)),
      MMFFOptimizeMolecule = (\<lambda>m. (m, Inr 0)),
      MolToImage = (\<lambda>m size. Inr size),
      save = (\<lambda>img path f. (f(path \<mapsto> ''PNG''), Inr ())),
      MolToPDBFile = (\<lambda>m path f. (f(path \<mapsto> ''HETATM''), Inr ())),
      MolToMolFile = (\<lambda>m path f. (f(path \<mapsto> ''M  END''), Inr ()))\<rparr>"

text \<open>
  The same toolkit where the ETKDG embedding fails with the sentinel, the default embedding
  succeeds and the minimization reports that it has not converged.
\<close>

definition stub_retry :: "(stub_mol, int \<times> int) toolkit" where
  "stub_retry =
     stub_toolkit
       \<lparr>EmbedMolecule :=
          (\<lambda>m method. if method = ETKDG then (m, Inr (- 1))
                       else (m\<lparr>conformer := Coords3D\<rparr>, Inr 0)),
        MMFFOptimizeMolecule := (\<lambda>m. (m, Inr 1))\<rparr>"

text \<open>
  The same toolkit where both embeddings fail with the sentinel and leave the molecule
  without coordinates, and the minimization of a molecule without coordinates raises.
\<close>

definition stub_unembedded :: "(stub_mol, int \<times> int) toolkit" where
  "stub_unembedded =
     stub_toolkit
       \<lparr>EmbedMolecule := (\<lambda>m method. (m, Inr (- 1))),
        MMFFOptimizeMolecule :=
          (\<lambda>m. if conformer m = NoCoords then (m, Inl (Exception ''Bad Conformer Id''))
               else (m, Inr 0))\<rparr>"

text \<open>
  The same toolkit where the user interrupts the program while the molecule is embedded: the
  embedding raises \<^verbatim>\<open>KeyboardInterrupt\<close>.
\<close>

definition stub_interrupted :: "(stub_mol, int \<times> int) toolkit" where
  "stub_interrupted =
     stub_toolkit\<lparr>EmbedMolecule := (\<lambda>m method. (m, Inl KeyboardInterrupt))\<rparr>"

text \<open>
  The same toolkit where the PDB writer raises after it has written the start of the file.
\<close>

definition stub_disk_full :: "(stub_mol, int \<times> int) toolkit" where
  "stub_disk_full =
     stub_toolkit
       \<lparr>MolToPDBFile :=
          (\<lambda>m path f. (f(path \<mapsto> ''HET''), Inl (Exception ''No space left on device'')))\<rparr>"

text \<open>
  Ethanol as parsed and with its hydrogens added, and the sodium cation, which is the same
  with and without hydrogens added.
\<close>

definition ethanol :: stub_mol where
  "ethanol = \<lparr>canonical = ''CCO'', atoms = 3, implicit_hs = 6, conformer = NoCoords\<rparr>"

definition ethanol_h :: stub_mol where
  "ethanol_h = \<lparr>canonical = ''CCO'', atoms = 9, implicit_hs = 0, conformer = NoCoords\<rparr>"

definition sodium :: stub_mol where
  "sodium = \<lparr>canonical = ''[Na+]'', atoms = 1, implicit_hs = 0, conformer = NoCoords\<rparr>"

text \<open>A file already on disk before the program runs.\<close>

definition with_file :: "string \<Rightarrow> string \<Rightarrow> world \<Rightarrow> world" where
  "with_file p content w = w\<lparr>files := (files w)(p \<mapsto> content)\<rparr>"

text \<open>A terminal with the given input, nothing printed yet, and an empty directory.\<close>

definition terminal :: "stdin_event list \<Rightarrow> world" where
  "terminal evs = \<lparr>stdin = evs, stdout = [], files = Map.empty\<rparr>"

section \<open>Frame lemmas: what the steps leave alone\<close>

lemma print_simps [simp]:
  "stdin (print s w) = stdin w" "files (print s w) = files w"
  "stdout (print s w) = stdout w @ [line s]"
  by (simp_all add: print_def)

lemma same_io_refl [simp]: "same_io w w"
  by (simp add: same_io_def)

lemma same_io_print [simp]: "same_io (print s w) v = same_io w v" "same_io w (print s v) = same_io w v"
  by (simp_all add: same_io_def)

lemma check_output_eq:
  "check_output p w =
     (print (if output_present (files w) p then ''Conversion successful: '' @ p
             else ''Output file creation failed'') w,
      Inr (output_present (files w) p))"
  by (simp add: check_output_def output_present_def os_path_exists_def os_path_getsize_def
      split: option.splits)

lemma embed_frame:
  "same_io (fst (embed tk m w)) w"
  by (simp add: embed_def Let_def split: prod.splits sum.splits)

lemma embed_indep:
  "snd (embed tk m w) = snd (embed tk m v)"
  by (simp add: embed_def Let_def split: prod.splits sum.splits)

lemma try_3d_frame: "same_io (fst (try_3d tk m w)) w"
  using embed_frame [of tk m w]
  by (auto simp add: try_3d_def Let_def split: prod.splits sum.splits)

lemma try_3d_indep: "snd (try_3d tk m w) = snd (try_3d tk m v)"
  using embed_indep [of tk m w v]
  by (auto simp add: try_3d_def Let_def split: prod.splits sum.splits)

lemma coordinates_frame: "same_io (fst (coordinates tk g m w)) w"
  using try_3d_frame [of tk m "print ''Generating 3D coordinates...'' w"]
  by (auto simp add: coordinates_def Let_def split: prod.splits sum.splits exn.splits)

lemma coordinates_indep: "snd (coordinates tk g m w) = snd (coordinates tk g m v)"
  using try_3d_indep [of tk m "print ''Generating 3D coordinates...'' w" "print ''Generating 3D coordinates...'' v"]
  by (auto simp add: coordinates_def Let_def split: prod.splits sum.splits exn.splits)


lemma same_io_files_update: "same_io w v \<Longrightarrow> same_io (w\<lparr>files := f\<rparr>) (v\<lparr>files := f\<rparr>)"
  by (simp add: same_io_def)

lemma save_file_indep:
  assumes "same_io w v"
  shows "same_io (fst (save_file tk fmt p m w)) (fst (save_file tk fmt p m v)) \<and>
         snd (save_file tk fmt p m w) = snd (save_file tk fmt p m v)"
proof -
  have "files w = files v" "stdin w = stdin v" using assms by (simp_all add: same_io_def)
  then show ?thesis
    using assms by (simp add: save_file_def Let_def same_io_def split: prod.splits)
qed

lemma save_png_indep:
  assumes "same_io w v"
  shows "same_io (fst (save_png tk p sz m w)) (fst (save_png tk p sz m v)) \<and>
         snd (save_png tk p sz m w) = snd (save_png tk p sz m v)"
proof -
  have "files w = files v" "stdin w = stdin v" using assms by (simp_all add: same_io_def)
  then show ?thesis
    by (simp add: save_png_def Let_def same_io_def split: prod.splits sum.splits)
qed

lemma coordinates_same_io:
  assumes "same_io w v"
  shows "same_io (fst (coordinates tk g m w)) (fst (coordinates tk g m v))"
  using coordinates_frame [of tk g m w] coordinates_frame [of tk g m v] assms
  by (simp add: same_io_def)

lemma save_structure_indep:
  assumes "same_io w v"
  shows "same_io (fst (save_structure tk p fmt g m w)) (fst (save_structure tk p fmt g m v)) \<and>
         snd (save_structure tk p fmt g m w) = snd (save_structure tk p fmt g m v)"
proof (cases "AddHs tk m")
  case (Inl e)
  then show ?thesis using assms by (simp add: save_structure_def)
next
  case (Inr mh)
  let ?l = "''Number of atoms after adding hydrogens: '' @ str_nat (GetNumAtoms tk mh)"
  obtain w2 r where cw: "coordinates tk g mh (print ?l w) = (w2, r)" by (cases "coordinates tk g mh (print ?l w)")
  obtain v2 r' where cv: "coordinates tk g mh (print ?l v) = (v2, r')" by (cases "coordinates tk g mh (print ?l v)")
  have rr: "r' = r" using coordinates_indep [of tk g mh "print ?l w" "print ?l v"] cw cv by simp
  have io: "same_io w2 v2"
    using coordinates_same_io [of "print ?l w" "print ?l v" tk g mh] assms cw cv by simp
  show ?thesis
  proof (cases r)
    case (Inl e)
    then show ?thesis using Inr cw cv rr io by (simp add: save_structure_def Let_def)
  next
    case (Inr m2)
    then show ?thesis using \<open>AddHs tk m = Inr mh\<close> cw cv rr save_file_indep [OF io, of tk fmt p m2]
      by (simp add: save_structure_def Let_def)
  qed
qed

lemma write_output_indep:
  assumes "same_io w v"
  shows "same_io (fst (write_output tk p fmt g sz m w)) (fst (write_output tk p fmt g sz m v)) \<and>
         snd (write_output tk p fmt g sz m w) = snd (write_output tk p fmt g sz m v)"
  using assms by (simp add: write_output_def save_png_indep save_structure_indep)

lemma save_file_stdin: "stdin (fst (save_file tk fmt p m w)) = stdin w"
  by (simp add: save_file_def Let_def split: prod.splits)

lemma save_png_stdin: "stdin (fst (save_png tk p sz m w)) = stdin w"
  by (simp add: save_png_def Let_def split: prod.splits sum.splits)

lemma coordinates_stdin: "stdin (fst (coordinates tk g m w)) = stdin w"
  using coordinates_frame [of tk g m w] by (simp add: same_io_def)

lemma save_structure_stdin: "stdin (fst (save_structure tk p fmt g m w)) = stdin w"
proof (cases "AddHs tk m")
  case (Inl e)
  then show ?thesis by (simp add: save_structure_def)
next
  case (Inr mh)
  let ?l = "''Number of atoms after adding hydrogens: '' @ str_nat (GetNumAtoms tk mh)"
  obtain w2 r where cw: "coordinates tk g mh (print ?l w) = (w2, r)" by (cases "coordinates tk g mh (print ?l w)")
  have "stdin w2 = stdin w" using coordinates_stdin [of tk g mh "print ?l w"] cw by simp
  then show ?thesis using Inr cw save_file_stdin [of tk fmt p _ w2]
    by (simp add: save_structure_def Let_def split: sum.splits)
qed

lemma write_output_stdin: "stdin (fst (write_output tk p fmt g sz m w)) = stdin w"
  by (simp add: write_output_def save_png_stdin save_structure_stdin)

lemma check_output_frame: "stdin (fst (check_output p w)) = stdin w" "files (fst (check_output p w)) = files w"
  by (simp_all add: check_output_eq)


lemma convert_smiles_unparsed:
  assumes "MolFromSmiles tk s = Inr None"
  shows "convert_smiles tk s p fmt g sz w =
           (print ''Invalid SMILES string''
              (print (''Parsing SMILES: '' @ s)
                 (print (''Converting SMILES to '' @ upper fmt @ '': '' @ s) w)),
            Inr False)"
  using assms by (simp add: convert_smiles_def convert_try_def Let_def)

lemma convert_smiles_parsed:
  assumes parsed: "MolFromSmiles tk s = Inr (Some mol)"
      and steps: "write_output tk p fmt g sz mol w = (w5, ro)"
  shows "files (fst (convert_smiles tk s p fmt g sz w)) = files w5 \<and>
         stdin (fst (convert_smiles tk s p fmt g sz w)) = stdin w \<and>
         snd (convert_smiles tk s p fmt g sz w) =
           (case ro of
              Inr u \<Rightarrow> Inr (output_present (files w5) p)
            | Inl KeyboardInterrupt \<Rightarrow> Inl KeyboardInterrupt
            | Inl (Exception e) \<Rightarrow> Inr False)"
proof -
  let ?w4 = "print (''Number of atoms: '' @ str_nat (GetNumAtoms tk mol))
               (print (''Molecular formula: '' @ MolToSmiles tk mol)
                  (print ''Successfully parsed SMILES''
                     (print (''Parsing SMILES: '' @ s)
                        (print (''Converting SMILES to '' @ upper fmt @ '': '' @ s) w))))"
  obtain v5 r5 where run: "write_output tk p fmt g sz mol ?w4 = (v5, r5)"
    by (cases "write_output tk p fmt g sz mol ?w4")
  have io: "same_io ?w4 w" by simp
  have "same_io v5 w5 \<and> r5 = ro"
    using write_output_indep [OF io, of tk p fmt g sz mol] run steps by simp
  moreover have "stdin v5 = stdin w"
    using write_output_stdin [of tk p fmt g sz mol ?w4] run by simp
  ultimately have v5: "files v5 = files w5" "stdin v5 = stdin w" "r5 = ro"
    by (simp_all add: same_io_def)
  show ?thesis
    using parsed run v5
    by (simp add: convert_smiles_def convert_try_def Let_def check_output_eq
        split: sum.splits exn.splits)
qed

section \<open>What the steps print, and formats without a writer\<close>

lemma coordinates_stdout: "\<exists>xs. stdout (fst (coordinates tk g m w)) = stdout w @ xs"
  by (simp add: coordinates_def try_3d_def embed_def Let_def
      split: prod.splits sum.splits exn.splits)

lemma save_file_stdout: "\<exists>xs. stdout (fst (save_file tk fmt p m w)) = stdout w @ xs"
  by (simp add: save_file_def Let_def split: prod.splits)

lemma save_file_other:
  "fmt \<noteq> ''pdb'' \<Longrightarrow> fmt \<noteq> ''mol'' \<Longrightarrow> save_file tk fmt p m w = (w, Inr ())"
  by (simp add: save_file_def)

lemma save_structure_stdout:
  assumes "AddHs tk mol = Inr mh"
  shows "\<exists>xs. stdout (fst (save_structure tk p fmt g mol w)) =
           stdout w @ [line (''Number of atoms after adding hydrogens: '' @
                             str_nat (GetNumAtoms tk mh))] @ xs"
proof -
  let ?w1 = "print (''Number of atoms after adding hydrogens: '' @ str_nat (GetNumAtoms tk mh)) w"
  obtain w2 r where c: "coordinates tk g mh ?w1 = (w2, r)" by (cases "coordinates tk g mh ?w1")
  obtain xs where xs: "stdout w2 = stdout ?w1 @ xs"
    using coordinates_stdout [of tk g mh ?w1] c by auto
  show ?thesis
  proof (cases r)
    case (Inl e)
    then show ?thesis using assms c xs by (simp add: save_structure_def Let_def)
  next
    case (Inr m)
    obtain ys where "stdout (fst (save_file tk fmt p m w2)) = stdout w2 @ ys"
      using save_file_stdout [of tk fmt p m w2] by auto
    then show ?thesis using assms c xs Inr by (simp add: save_structure_def Let_def)
  qed
qed

lemma check_output_stdout: "\<exists>xs. stdout (fst (check_output p w)) = stdout w @ xs"
  by (simp add: check_output_eq)

lemma convert_smiles_stdout:
  assumes "MolFromSmiles tk s = Inr (Some mol)"
  shows "\<exists>xs. stdout (fst (convert_smiles tk s p fmt g sz w)) =
           stdout (fst (write_output tk p fmt g sz mol
             (print (''Number of atoms: '' @ str_nat (GetNumAtoms tk mol))
               (print (''Molecular formula: '' @ MolToSmiles tk mol)
                  (print ''Successfully parsed SMILES''
                     (print (''Parsing SMILES: '' @ s)
                        (print (''Converting SMILES to '' @ upper fmt @ '': '' @ s) w))))))) @ xs"
  using assms
  by (simp add: convert_smiles_def convert_try_def Let_def check_output_eq
      split: prod.splits sum.splits exn.splits)

lemma write_output_other:
  assumes "fmt \<noteq> ''png''" "fmt \<noteq> ''pdb''" "fmt \<noteq> ''mol''"
  shows "files (fst (write_output tk p fmt g sz mol w)) = files w \<and>
         (AddHs tk mol = Inr mh \<longrightarrow> snd (coordinates tk g mh w) = Inr m \<longrightarrow>
            snd (write_output tk p fmt g sz mol w) = Inr ())"
proof (cases "AddHs tk mol")
  case (Inl e)
  then show ?thesis using assms by (simp add: write_output_def save_structure_def)
next
  case (Inr mh')
  let ?w1 = "print (''Number of atoms after adding hydrogens: '' @ str_nat (GetNumAtoms tk mh')) w"
  obtain w2 r where c: "coordinates tk g mh' ?w1 = (w2, r)" by (cases "coordinates tk g mh' ?w1")
  have f: "files w2 = files w"
    using coordinates_frame [of tk g mh' ?w1] c by (simp add: same_io_def)
  have r: "r = snd (coordinates tk g mh' w)"
    using coordinates_indep [of tk g mh' ?w1 w] c by simp
  show ?thesis
    using assms Inr c f r
    by (auto simp add: write_output_def save_structure_def save_file_other split: sum.splits)
qed

lemma write_output_other_result:
  assumes "fmt \<noteq> ''png''" "fmt \<noteq> ''pdb''" "fmt \<noteq> ''mol''"
  shows "snd (write_output tk p fmt g sz mol w) =
           (case AddHs tk mol of
              Inl e \<Rightarrow> Inl e
            | Inr mh \<Rightarrow> (case snd (coordinates tk g mh w) of Inl e \<Rightarrow> Inl e | Inr m \<Rightarrow> Inr ()))"
proof (cases "AddHs tk mol")
  case (Inl e)
  then show ?thesis using assms by (simp add: write_output_def save_structure_def)
next
  case (Inr mh)
  let ?w1 = "print (''Number of atoms after adding hydrogens: '' @ str_nat (GetNumAtoms tk mh)) w"
  obtain w2 r where c: "coordinates tk g mh ?w1 = (w2, r)" by (cases "coordinates tk g mh ?w1")
  have r: "r = snd (coordinates tk g mh w)"
    using coordinates_indep [of tk g mh ?w1 w] c by simp
  show ?thesis
    using assms Inr c r
    by (auto simp add: write_output_def save_structure_def save_file_other split: sum.splits)
qed

section \<open>convert_smiles step by step\<close>

lemma convert_smiles_after_steps:
  assumes "MolFromSmiles tk s = Inr (Some mol)"
  shows "convert_smiles tk s p fmt g sz w =
           after_steps p
             (write_output tk p fmt g sz mol
                (w\<lparr>stdout := stdout w @ parsed_lines tk s fmt mol\<rparr>))"
  using assms
  by (simp add: convert_smiles_def convert_try_def after_steps_def except_handler_def Let_def
      parsed_lines_def print_def split: prod.splits sum.splits exn.splits)

lemma write_output_structure:
  assumes "fmt \<noteq> ''png''" "AddHs tk mol = Inr mh"
  shows "write_output tk p fmt g sz mol w =
           (case coordinates tk g mh
                   (w\<lparr>stdout := stdout w @
                         [line (''Number of atoms after adding hydrogens: '' @
                                str_nat (GetNumAtoms tk mh))]\<rparr>) of
              (w2, Inl e) \<Rightarrow> (w2, Inl e)
            | (w2, Inr m) \<Rightarrow> save_file tk fmt p m w2)"
  using assms by (simp add: write_output_def save_structure_def Let_def print_def)

lemma coordinates_fallback:
  assumes "EmbedMolecule tk mh ETKDG = (m1, Inr (- 1))"
      and "EmbedMolecule tk m1 DefaultEmbed = (m2, Inr fallback_result)"
  shows "coordinates tk True mh w =
           (case MMFFOptimizeMolecule tk m2 of
              (m3, Inr c) \<Rightarrow>
                (w\<lparr>stdout := stdout w @
                      [line ''Generating 3D coordinates...'',
                       line ''First embedding failed, trying alternative method...''] @
                      (if c \<noteq> 0
                       then [line ''Energy minimization may not have fully converged'']
                       else []) @
                      [line ''3D coordinates generated successfully'']\<rparr>,
                 Inr m3)
            | (m3, Inl KeyboardInterrupt) \<Rightarrow>
                (w\<lparr>stdout := stdout w @
                      [line ''Generating 3D coordinates...'',
                       line ''First embedding failed, trying alternative method...'']\<rparr>,
                 Inl KeyboardInterrupt)
            | (m3, Inl (Exception e)) \<Rightarrow>
                (w\<lparr>stdout := stdout w @
                      [line ''Generating 3D coordinates...'',
                       line ''First embedding failed, trying alternative method...'',
                       line (''3D coordinate generation warning: '' @ e),
                       line ''Using 2D coordinates...'']\<rparr>,
                 Compute2DCoords tk m3))"
  using assms
  by (simp add: coordinates_def try_3d_def embed_def Let_def print_def
      split: prod.splits sum.splits exn.splits)

section \<open>Unfolding the program on concrete inputs\<close>

lemmas string_defs = upper_def lower_def strip_def is_space_def ascii_lowercase_def
  ascii_uppercase_def endswith_def str_int_def str_nat.simps digit_char_def line_def

lemmas convert_defs = convert_smiles_def convert_try_def write_output_def save_structure_def
  save_png_def save_file_def coordinates_def try_3d_def embed_def check_output_def
  os_path_exists_def os_path_getsize_def output_present_def print_def Let_def

lemmas stub_defs = stub_toolkit_def stub_parse_def add_hydrogens_def ethanol_def ethanol_h_def
  terminal_def

section \<open>The result of convert_smiles\<close>

text \<open>
  Claim C1, as stated: \<open>convert_smiles\<close> returns true if and only if the output file exists
  with non-zero size at the end, whatever the conversion steps did. The code returns false
  at line 24 before it looks at the file, so the claim fails on an invalid SMILES string and
  a file left at the output path by an earlier run.
\<close>

theorem success_criterion_counterexample:
  "snd (convert_smiles stub_toolkit ''invalid_smiles_###'' ''output.pdb'' ''pdb'' True 200
          (with_file ''output.pdb'' ''old'' (terminal []))) = Inr False \<and>
   output_present
     (files (fst (convert_smiles stub_toolkit ''invalid_smiles_###'' ''output.pdb'' ''pdb'' True 200
                    (with_file ''output.pdb'' ''old'' (terminal []))))) ''output.pdb''"
  by (simp add: convert_defs stub_defs with_file_def)

text \<open>
  Claim C1, amended: \<open>convert_smiles\<close> returns true only if the output file exists with
  non-zero size at the end. When the SMILES string parses and the conversion steps return
  without raising, it returns true exactly if the file exists with non-zero size. When
  parsing fails it returns false and leaves the files alone, and when a conversion step
  raises an \<open>Exception\<close> it returns false, whatever is at the output path. The steps are
  run here on the world of the call: what they write and whether they raise does not depend
  on what has been printed.
\<close>

theorem convert_smiles_success_criterion:
  assumes "convert_smiles tk smiles_string output_file output_format generate_3d image_size w = (w', r)"
  shows "(r = Inr True \<longrightarrow> output_present (files w') output_file) \<and>
         (MolFromSmiles tk smiles_string = Inr None \<longrightarrow> r = Inr False \<and> files w' = files w) \<and>
         (MolFromSmiles tk smiles_string = Inr (Some mol) \<longrightarrow>
          write_output tk output_file output_format generate_3d image_size mol w = (w5, Inr ()) \<longrightarrow>
            files w' = files w5 \<and> r = Inr (output_present (files w') output_file)) \<and>
         (MolFromSmiles tk smiles_string = Inr (Some mol) \<longrightarrow>
          write_output tk output_file output_format generate_3d image_size mol w =
            (w5, Inl (Exception e)) \<longrightarrow>
            files w' = files w5 \<and> r = Inr False)"
proof -
  have a: "r = Inr True \<longrightarrow> output_present (files w') output_file"
  proof (cases "MolFromSmiles tk smiles_string")
    case (Inl x)
    then show ?thesis using assms
      by (auto simp add: convert_smiles_def convert_try_def Let_def split: exn.splits)
  next
    case (Inr mo)
    show ?thesis
    proof (cases mo)
      case None
      then show ?thesis using Inr assms convert_smiles_unparsed [of tk smiles_string] by auto
    next
      case (Some m)
      obtain v ro where
        run: "write_output tk output_file output_format generate_3d image_size m w = (v, ro)"
        by (cases "write_output tk output_file output_format generate_3d image_size m w")
      show ?thesis
        using convert_smiles_parsed [OF _ run, of smiles_string] Inr Some assms
        by (auto split: sum.splits exn.splits)
    qed
  qed
  have b: "MolFromSmiles tk smiles_string = Inr None \<longrightarrow> r = Inr False \<and> files w' = files w"
    using assms convert_smiles_unparsed [of tk smiles_string] by auto
  have c: "MolFromSmiles tk smiles_string = Inr (Some mol) \<longrightarrow>
          write_output tk output_file output_format generate_3d image_size mol w = (w5, Inr ()) \<longrightarrow>
            files w' = files w5 \<and> r = Inr (output_present (files w') output_file)"
    using assms convert_smiles_parsed [of tk smiles_string mol output_file output_format
        generate_3d image_size w w5 "Inr ()"]
    by auto
  have d: "MolFromSmiles tk smiles_string = Inr (Some mol) \<longrightarrow>
          write_output tk output_file output_format generate_3d image_size mol w =
            (w5, Inl (Exception e)) \<longrightarrow>
            files w' = files w5 \<and> r = Inr False"
    using assms convert_smiles_parsed [of tk smiles_string mol output_file output_format
        generate_3d image_size w w5 "Inl (Exception e)"]
    by auto
  from a b c d show ?thesis by blast
qed


text \<open>
  The amended claim C1 on ethanol written as PDB with 3D coordinates, on a string that
  does not parse, and on a writer that raises after it has left a non-empty file.
\<close>

theorem convert_smiles_success_criterion_witness:
  "MolFromSmiles stub_toolkit ''CCO'' = Inr (Some ethanol) \<and>
   snd (write_output stub_toolkit ''output.pdb'' ''pdb'' True 200 ethanol (terminal [])) = Inr () \<and>
   snd (convert_smiles stub_toolkit ''CCO'' ''output.pdb'' ''pdb'' True 200 (terminal [])) = Inr True \<and>
   output_present
     (files (fst (convert_smiles stub_toolkit ''CCO'' ''output.pdb'' ''pdb'' True 200 (terminal []))))
     ''output.pdb'' \<and>
   MolFromSmiles stub_toolkit ''C(C'' = Inr None \<and>
   snd (convert_smiles stub_toolkit ''C(C'' ''output.pdb'' ''pdb'' True 200 (terminal [])) =
     Inr False \<and>
   MolFromSmiles stub_disk_full ''CCO'' = Inr (Some ethanol) \<and>
   snd (write_output stub_disk_full ''output.pdb'' ''pdb'' True 200 ethanol (terminal [])) =
     Inl (Exception ''No space left on device'') \<and>
   snd (convert_smiles stub_disk_full ''CCO'' ''output.pdb'' ''pdb'' True 200 (terminal [])) =
     Inr False \<and>
   output_present
     (files (fst (convert_smiles stub_disk_full ''CCO'' ''output.pdb'' ''pdb'' True 200
                    (terminal []))))
     ''output.pdb''"
proof -
  let ?run = "convert_smiles stub_toolkit ''CCO'' ''output.pdb'' ''pdb'' True 200 (terminal [])"
  let ?steps = "write_output stub_toolkit ''output.pdb'' ''pdb'' True 200 ethanol (terminal [])"
  let ?bad = "convert_smiles stub_toolkit ''C(C'' ''output.pdb'' ''pdb'' True 200 (terminal [])"
  let ?full = "convert_smiles stub_disk_full ''CCO'' ''output.pdb'' ''pdb'' True 200 (terminal [])"
  let ?fsteps = "write_output stub_disk_full ''output.pdb'' ''pdb'' True 200 ethanol (terminal [])"
  have p: "MolFromSmiles stub_toolkit ''CCO'' = Inr (Some ethanol)"
    by (simp add: stub_defs)
  have s: "snd ?steps = Inr ()"
    by (simp add: convert_defs stub_defs)
  have f: "output_present (files (fst ?steps)) ''output.pdb''"
    by (simp add: convert_defs stub_defs)
  have r: "?run = (fst ?run, snd ?run)" by simp
  have s': "?steps = (fst ?steps, Inr ())" using s by (metis prod.collapse)
  from convert_smiles_success_criterion [OF r, of ethanol "fst ?steps"] p s' f
  have ok: "snd ?run = Inr True \<and> output_present (files (fst ?run)) ''output.pdb''"
    by simp
  have q: "MolFromSmiles stub_toolkit ''C(C'' = Inr None"
    by (simp add: stub_defs)
  have b: "?bad = (fst ?bad, snd ?bad)" by simp
  from convert_smiles_success_criterion [OF b] q
  have bad: "snd ?bad = Inr False" by simp
  have p2: "MolFromSmiles stub_disk_full ''CCO'' = Inr (Some ethanol)"
    by (simp add: stub_disk_full_def stub_defs)
  have s2: "snd ?fsteps = Inl (Exception ''No space left on device'')"
    by (simp add: convert_defs stub_disk_full_def stub_defs)
  have f2: "output_present (files (fst ?fsteps)) ''output.pdb''"
    by (simp add: convert_defs stub_disk_full_def stub_defs)
  have s2': "?fsteps = (fst ?fsteps, Inl (Exception ''No space left on device''))"
    using s2 by (metis prod.collapse)
  have r2: "?full = (fst ?full, snd ?full)" by simp
  from convert_smiles_success_criterion [OF r2, of ethanol "fst ?fsteps"
      "''No space left on device''"] p2 s2' f2
  have full: "snd ?full = Inr False \<and> output_present (files (fst ?full)) ''output.pdb''"
    by simp
  from p s ok q bad p2 s2 full show ?thesis by simp
qed

text \<open>
  Claim C2: when the toolkit fails to parse the SMILES string, \<open>convert_smiles\<close> prints
  "Invalid SMILES string" and returns false; it returns, so no exception leaves it. The two
  lines printed before are those of lines 17 and 20, and no file is touched.
\<close>

theorem invalid_smiles_returns_false:
  assumes "MolFromSmiles tk smiles_string = Inr None"
  shows "convert_smiles tk smiles_string output_file output_format generate_3d image_size w =
           (w\<lparr>stdout := stdout w @
                 [line (''Converting SMILES to '' @ upper output_format @ '': '' @ smiles_string),
                  line (''Parsing SMILES: '' @ smiles_string),
                  line ''Invalid SMILES string'']\<rparr>,
            Inr False)"
  using assms by (simp add: convert_smiles_def convert_try_def Let_def print_def)

text \<open>Claim C2 on the string of the specification's scenario.\<close>

theorem invalid_smiles_returns_false_witness:
  "MolFromSmiles stub_toolkit ''invalid_smiles_###'' = Inr None \<and>
   convert_smiles stub_toolkit ''invalid_smiles_###'' ''output.pdb'' ''pdb'' True 200 (terminal []) =
     (\<lparr>stdin = [],
       stdout = [line ''Converting SMILES to PDB: invalid_smiles_###'',
                 line ''Parsing SMILES: invalid_smiles_###'',
                 line ''Invalid SMILES string''],
       files = Map.empty\<rparr>, Inr False)"
proof -
  have h: "MolFromSmiles stub_toolkit ''invalid_smiles_###'' = Inr None"
    by (simp add: stub_defs)
  have u: "upper ''pdb'' = ''PDB''" by (simp add: string_defs)
  show ?thesis
    using h invalid_smiles_returns_false [OF h, of "''output.pdb''" "''pdb''" True 200 "terminal []"]
    by (simp add: u terminal_def)
qed

section \<open>Coordinates: ETKDG, the fallback, the minimization, the 2D layout\<close>

text \<open>
  Claim C3, as stated: when any step of the 3D generation raises, the exception is caught, a
  warning is printed and a 2D layout is computed instead. The handler of line 56 is
  \<^verbatim>\<open>except Exception\<close>, which does not catch \<^verbatim>\<open>KeyboardInterrupt\<close>: when the user
  interrupts the program during the embedding, nothing is caught, no warning is printed, no
  2D layout is computed and no file is written; the interrupt leaves \<open>convert_smiles\<close>.
\<close>

theorem interrupt_not_caught_in_3d:
  "EmbedMolecule stub_interrupted ethanol_h ETKDG = (ethanol_h, Inl KeyboardInterrupt) \<and>
   coordinates stub_interrupted True ethanol_h (terminal []) =
     (\<lparr>stdin = [], stdout = [line ''Generating 3D coordinates...''], files = Map.empty\<rparr>,
      Inl KeyboardInterrupt) \<and>
   convert_smiles stub_interrupted ''CCO'' ''output.pdb'' ''pdb'' True 200 (terminal []) =
     (\<lparr>stdin = [],
       stdout = [line ''Converting SMILES to PDB: CCO'',
                 line ''Parsing SMILES: CCO'',
                 line ''Successfully parsed SMILES'',
                 line ''Molecular formula: CCO'',
                 line ''Number of atoms: 3'',
                 line ''Number of atoms after adding hydrogens: 9'',
                 line ''Generating 3D coordinates...''],
       files = Map.empty\<rparr>,
      Inl KeyboardInterrupt)"
  by (simp add: convert_defs stub_interrupted_def stub_defs string_defs)

text \<open>
  Claim C3, amended: with \<open>generate_3d\<close> true and a format other than \<open>png\<close> (so for
  \<open>pdb\<close> and \<open>mol\<close>), \<open>convert_smiles\<close> on a string that parses runs the conversion steps
  under the check and the handler of lines 71 to 80, and the steps are hydrogen addition,
  the coordinate block, and the writer of the format. The coordinate block first calls the
  ETKDG embedding; when that returns \<open>-1\<close> it prints a message and calls the default
  embedding; it then calls the minimization, and a result other than \<open>0\<close> only adds a
  warning line before the success line. When the ETKDG embedding, the default embedding or
  the minimization raises an \<open>Exception\<close>, the block prints the warning with the
  exception's text and "Using 2D coordinates...", and the result is the 2D layout of the
  molecule as the failed step left it. When one of them raises \<^verbatim>\<open>KeyboardInterrupt\<close>,
  the block prints nothing more and the interrupt passes.
\<close>

theorem three_d_generation:
  "(MolFromSmiles tk smiles_string = Inr (Some mol) \<longrightarrow>
      convert_smiles tk smiles_string output_file output_format True image_size v =
        after_steps output_file
          (write_output tk output_file output_format True image_size mol
             (v\<lparr>stdout := stdout v @ parsed_lines tk smiles_string output_format mol\<rparr>))) \<and>
   (output_format \<noteq> ''png'' \<longrightarrow> AddHs tk mol = Inr mol_with_h \<longrightarrow>
      write_output tk output_file output_format True image_size mol w =
        (case coordinates tk True mol_with_h
                (print (''Number of atoms after adding hydrogens: '' @
                        str_nat (GetNumAtoms tk mol_with_h)) w) of
           (w2, Inl e) \<Rightarrow> (w2, Inl e)
         | (w2, Inr m) \<Rightarrow> save_file tk output_format output_file m w2)) \<and>
   (EmbedMolecule tk mol_with_h ETKDG = (m1, Inr embed_result) \<longrightarrow> embed_result \<noteq> - 1 \<longrightarrow>
    MMFFOptimizeMolecule tk m1 = (m3, Inr minimize_result) \<longrightarrow>
      coordinates tk True mol_with_h w =
        (w\<lparr>stdout := stdout w @ [line ''Generating 3D coordinates...''] @
              (if minimize_result \<noteq> 0
               then [line ''Energy minimization may not have fully converged''] else []) @
              [line ''3D coordinates generated successfully'']\<rparr>,
         Inr m3)) \<and>
   (EmbedMolecule tk mol_with_h ETKDG = (m1, Inr (- 1)) \<longrightarrow>
    EmbedMolecule tk m1 DefaultEmbed = (m2, Inr fallback_result) \<longrightarrow>
    MMFFOptimizeMolecule tk m2 = (m3, Inr minimize_result) \<longrightarrow>
      coordinates tk True mol_with_h w =
        (w\<lparr>stdout := stdout w @ [line ''Generating 3D coordinates...'',
                                   line ''First embedding failed, trying alternative method...''] @
              (if minimize_result \<noteq> 0
               then [line ''Energy minimization may not have fully converged''] else []) @
              [line ''3D coordinates generated successfully'']\<rparr>,
         Inr m3)) \<and>
   (EmbedMolecule tk mol_with_h ETKDG = (m1, Inl (Exception e)) \<longrightarrow>
      coordinates tk True mol_with_h w =
        (w\<lparr>stdout := stdout w @ [line ''Generating 3D coordinates...'',
                                   line (''3D coordinate generation warning: '' @ e),
                                   line ''Using 2D coordinates...'']\<rparr>,
         Compute2DCoords tk m1)) \<and>
   (EmbedMolecule tk mol_with_h ETKDG = (m1, Inr (- 1)) \<longrightarrow>
    EmbedMolecule tk m1 DefaultEmbed = (m2, Inl (Exception e)) \<longrightarrow>
      coordinates tk True mol_with_h w =
        (w\<lparr>stdout := stdout w @ [line ''Generating 3D coordinates...'',
                                   line ''First embedding failed, trying alternative method...'',
                                   line (''3D coordinate generation warning: '' @ e),
                                   line ''Using 2D coordinates...'']\<rparr>,
         Compute2DCoords tk m2)) \<and>
   (EmbedMolecule tk mol_with_h ETKDG = (m1, Inr embed_result) \<longrightarrow> embed_result \<noteq> - 1 \<longrightarrow>
    MMFFOptimizeMolecule tk m1 = (m3, Inl (Exception e)) \<longrightarrow>
      coordinates tk True mol_with_h w =
        (w\<lparr>stdout := stdout w @ [line ''Generating 3D coordinates...'',
                                   line (''3D coordinate generation warning: '' @ e),
                                   line ''Using 2D coordinates...'']\<rparr>,
         Compute2DCoords tk m3)) \<and>
   (EmbedMolecule tk mol_with_h ETKDG = (m1, Inr (- 1)) \<longrightarrow>
    EmbedMolecule tk m1 DefaultEmbed = (m2, Inr fallback_result) \<longrightarrow>
    MMFFOptimizeMolecule tk m2 = (m3, Inl (Exception e)) \<longrightarrow>
      coordinates tk True mol_with_h w =
        (w\<lparr>stdout := stdout w @ [line ''Generating 3D coordinates...'',
                                   line ''First embedding failed, trying alternative method...'',
                                   line (''3D coordinate generation warning: '' @ e),
                                   line ''Using 2D coordinates...'']\<rparr>,
         Compute2DCoords tk m3)) \<and>
   (EmbedMolecule tk mol_with_h ETKDG = (m1, Inl KeyboardInterrupt) \<longrightarrow>
      coordinates tk True mol_with_h w =
        (w\<lparr>stdout := stdout w @ [line ''Generating 3D coordinates...'']\<rparr>,
         Inl KeyboardInterrupt)) \<and>
   (EmbedMolecule tk mol_with_h ETKDG = (m1, Inr (- 1)) \<longrightarrow>
    EmbedMolecule tk m1 DefaultEmbed = (m2, Inl KeyboardInterrupt) \<longrightarrow>
      coordinates tk True mol_with_h w =
        (w\<lparr>stdout := stdout w @ [line ''Generating 3D coordinates...'',
                                   line ''First embedding failed, trying alternative method...'']\<rparr>,
         Inl KeyboardInterrupt)) \<and>
   (EmbedMolecule tk mol_with_h ETKDG = (m1, Inr embed_result) \<longrightarrow> embed_result \<noteq> - 1 \<longrightarrow>
    MMFFOptimizeMolecule tk m1 = (m3, Inl KeyboardInterrupt) \<longrightarrow>
      coordinates tk True mol_with_h w =
        (w\<lparr>stdout := stdout w @ [line ''Generating 3D coordinates...'']\<rparr>,
         Inl KeyboardInterrupt)) \<and>
   (EmbedMolecule tk mol_with_h ETKDG = (m1, Inr (- 1)) \<longrightarrow>
    EmbedMolecule tk m1 DefaultEmbed = (m2, Inr fallback_result) \<longrightarrow>
    MMFFOptimizeMolecule tk m2 = (m3, Inl KeyboardInterrupt) \<longrightarrow>
      coordinates tk True mol_with_h w =
        (w\<lparr>stdout := stdout w @ [line ''Generating 3D coordinates...'',
                                   line ''First embedding failed, trying alternative method...'']\<rparr>,
         Inl KeyboardInterrupt))"
proof -
  have c0: "(MolFromSmiles tk smiles_string = Inr (Some mol) \<longrightarrow>
         convert_smiles tk smiles_string output_file output_format True image_size v =
           after_steps output_file
             (write_output tk output_file output_format True image_size mol
                (v\<lparr>stdout := stdout v @ parsed_lines tk smiles_string output_format mol\<rparr>)))"
    by (simp add: convert_smiles_after_steps)
  have c1: "(output_format \<noteq> ''png'' \<longrightarrow> AddHs tk mol = Inr mol_with_h \<longrightarrow>
         write_output tk output_file output_format True image_size mol w =
           (case coordinates tk True mol_with_h
                   (print (''Number of atoms after adding hydrogens: '' @
                           str_nat (GetNumAtoms tk mol_with_h)) w) of
              (w2, Inl e) \<Rightarrow> (w2, Inl e)
            | (w2, Inr m) \<Rightarrow> save_file tk output_format output_file m w2))"
    by (simp add: write_output_def save_structure_def Let_def)
  have c2: "(EmbedMolecule tk mol_with_h ETKDG = (m1, Inr embed_result) \<longrightarrow> embed_result \<noteq> - 1 \<longrightarrow>
       MMFFOptimizeMolecule tk m1 = (m3, Inr minimize_result) \<longrightarrow>
         coordinates tk True mol_with_h w =
           (w\<lparr>stdout := stdout w @ [line ''Generating 3D coordinates...''] @
                 (if minimize_result \<noteq> 0
                  then [line ''Energy minimization may not have fully converged''] else []) @
                 [line ''3D coordinates generated successfully'']\<rparr>,
            Inr m3))"
    by (simp add: coordinates_def try_3d_def embed_def print_def Let_def)
  have c3: "(EmbedMolecule tk mol_with_h ETKDG = (m1, Inr (- 1)) \<longrightarrow>
       EmbedMolecule tk m1 DefaultEmbed = (m2, Inr fallback_result) \<longrightarrow>
       MMFFOptimizeMolecule tk m2 = (m3, Inr minimize_result) \<longrightarrow>
         coordinates tk True mol_with_h w =
           (w\<lparr>stdout := stdout w @ [line ''Generating 3D coordinates...'',
                                      line ''First embedding failed, trying alternative method...''] @
                 (if minimize_result \<noteq> 0
                  then [line ''Energy minimization may not have fully converged''] else []) @
                 [line ''3D coordinates generated successfully'']\<rparr>,
            Inr m3))"
    by (simp add: coordinates_def try_3d_def embed_def print_def Let_def)
  have c4: "(EmbedMolecule tk mol_with_h ETKDG = (m1, Inl (Exception e)) \<longrightarrow>
         coordinates tk True mol_with_h w =
           (w\<lparr>stdout := stdout w @ [line ''Generating 3D coordinates...'',
                                      line (''3D coordinate generation warning: '' @ e),
                                      line ''Using 2D coordinates...'']\<rparr>,
            Compute2DCoords tk m1))"
    by (simp add: coordinates_def try_3d_def embed_def print_def Let_def)
  have c5: "(EmbedMolecule tk mol_with_h ETKDG = (m1, Inr (- 1)) \<longrightarrow>
       EmbedMolecule tk m1 DefaultEmbed = (m2, Inl (Exception e)) \<longrightarrow>
         coordinates tk True mol_with_h w =
           (w\<lparr>stdout := stdout w @ [line ''Generating 3D coordinates...'',
                                      line ''First embedding failed, trying alternative method...'',
                                      line (''3D coordinate generation warning: '' @ e),
                                      line ''Using 2D coordinates...'']\<rparr>,
            Compute2DCoords tk m2))"
    by (simp add: coordinates_def try_3d_def embed_def print_def Let_def)
  have c6: "(EmbedMolecule tk mol_with_h ETKDG = (m1, Inr embed_result) \<longrightarrow> embed_result \<noteq> - 1 \<longrightarrow>
       MMFFOptimizeMolecule tk m1 = (m3, Inl (Exception e)) \<longrightarrow>
         coordinates tk True mol_with_h w =
           (w\<lparr>stdout := stdout w @ [line ''Generating 3D coordinates...'',
                                      line (''3D coordinate generation warning: '' @ e),
                                      line ''Using 2D coordinates...'']\<rparr>,
            Compute2DCoords tk m3))"
    by (simp add: coordinates_def try_3d_def embed_def print_def Let_def)
  have c7: "(EmbedMolecule tk mol_with_h ETKDG = (m1, Inr (- 1)) \<longrightarrow>
       EmbedMolecule tk m1 DefaultEmbed = (m2, Inr fallback_result) \<longrightarrow>
       MMFFOptimizeMolecule tk m2 = (m3, Inl (Exception e)) \<longrightarrow>
         coordinates tk True mol_with_h w =
           (w\<lparr>stdout := stdout w @ [line ''Generating 3D coordinates...'',
                                      line ''First embedding failed, trying alternative method...'',
                                      line (''3D coordinate generation warning: '' @ e),
                                      line ''Using 2D coordinates...'']\<rparr>,
            Compute2DCoords tk m3))"
    by (simp add: coordinates_def try_3d_def embed_def print_def Let_def)
  have c8: "(EmbedMolecule tk mol_with_h ETKDG = (m1, Inl KeyboardInterrupt) \<longrightarrow>
         coordinates tk True mol_with_h w =
           (w\<lparr>stdout := stdout w @ [line ''Generating 3D coordinates...'']\<rparr>,
            Inl KeyboardInterrupt))"
    by (simp add: coordinates_def try_3d_def embed_def print_def Let_def)
  have c9: "(EmbedMolecule tk mol_with_h ETKDG = (m1, Inr (- 1)) \<longrightarrow>
       EmbedMolecule tk m1 DefaultEmbed = (m2, Inl KeyboardInterrupt) \<longrightarrow>
         coordinates tk True mol_with_h w =
           (w\<lparr>stdout := stdout w @ [line ''Generating 3D coordinates...'',
                                      line ''First embedding failed, trying alternative method...'']\<rparr>,
            Inl KeyboardInterrupt))"
    by (simp add: coordinates_def try_3d_def embed_def print_def Let_def)
  have c10: "(EmbedMolecule tk mol_with_h ETKDG = (m1, Inr embed_result) \<longrightarrow> embed_result \<noteq> - 1 \<longrightarrow>
       MMFFOptimizeMolecule tk m1 = (m3, Inl KeyboardInterrupt) \<longrightarrow>
         coordinates tk True mol_with_h w =
           (w\<lparr>stdout := stdout w @ [line ''Generating 3D coordinates...'']\<rparr>,
            Inl KeyboardInterrupt))"
    by (simp add: coordinates_def try_3d_def embed_def print_def Let_def)
  have c11: "(EmbedMolecule tk mol_with_h ETKDG = (m1, Inr (- 1)) \<longrightarrow>
       EmbedMolecule tk m1 DefaultEmbed = (m2, Inr fallback_result) \<longrightarrow>
       MMFFOptimizeMolecule tk m2 = (m3, Inl KeyboardInterrupt) \<longrightarrow>
         coordinates tk True mol_with_h w =
           (w\<lparr>stdout := stdout w @ [line ''Generating 3D coordinates...'',
                                      line ''First embedding failed, trying alternative method...'']\<rparr>,
            Inl KeyboardInterrupt))"
    by (simp add: coordinates_def try_3d_def embed_def print_def Let_def)
  show ?thesis
    using c0 c1 c2 c3 c4 c5 c6 c7 c8 c9 c10 c11 by (intro conjI) assumption+
qed

text \<open>
  The amended claim C3 on ethanol with hydrogens: the ETKDG embedding fails, the default
  one succeeds and the minimization does not converge, in the coordinate block and in the
  whole of \<open>convert_smiles\<close>; both embeddings fail and the minimization raises, which ends
  in the 2D layout; and the embedding is interrupted.
\<close>

theorem three_d_generation_witness:
  "EmbedMolecule stub_retry ethanol_h ETKDG = (ethanol_h, Inr (- 1)) \<and>
   EmbedMolecule stub_retry ethanol_h DefaultEmbed =
     (ethanol_h\<lparr>conformer := Coords3D\<rparr>, Inr 0) \<and>
   MMFFOptimizeMolecule stub_retry (ethanol_h\<lparr>conformer := Coords3D\<rparr>) =
     (ethanol_h\<lparr>conformer := Coords3D\<rparr>, Inr 1) \<and>
   coordinates stub_retry True ethanol_h (terminal []) =
     (\<lparr>stdin = [],
       stdout = [line ''Generating 3D coordinates...'',
                 line ''First embedding failed, trying alternative method...'',
                 line ''Energy minimization may not have fully converged'',
                 line ''3D coordinates generated successfully''],
       files = Map.empty\<rparr>,
      Inr (ethanol_h\<lparr>conformer := Coords3D\<rparr>)) \<and>
   EmbedMolecule stub_unembedded ethanol_h ETKDG = (ethanol_h, Inr (- 1)) \<and>
   EmbedMolecule stub_unembedded ethanol_h DefaultEmbed = (ethanol_h, Inr (- 1)) \<and>
   MMFFOptimizeMolecule stub_unembedded ethanol_h =
     (ethanol_h, Inl (Exception ''Bad Conformer Id'')) \<and>
   coordinates stub_unembedded True ethanol_h (terminal []) =
     (\<lparr>stdin = [],
       stdout = [line ''Generating 3D coordinates...'',
                 line ''First embedding failed, trying alternative method...'',
                 line ''3D coordinate generation warning: Bad Conformer Id'',
                 line ''Using 2D coordinates...''],
       files = Map.empty\<rparr>,
      Inr (ethanol_h\<lparr>conformer := Coords2D\<rparr>)) \<and>
   ''pdb'' \<noteq> ''png'' \<and>
   MolFromSmiles stub_retry ''CCO'' = Inr (Some ethanol) \<and>
   AddHs stub_retry ethanol = Inr ethanol_h \<and>
   convert_smiles stub_retry ''CCO'' ''output.pdb'' ''pdb'' True 200 (terminal []) =
     (\<lparr>stdin = [],
       stdout = [line ''Converting SMILES to PDB: CCO'',
                 line ''Parsing SMILES: CCO'',
                 line ''Successfully parsed SMILES'',
                 line ''Molecular formula: CCO'',
                 line ''Number of atoms: 3'',
                 line ''Number of atoms after adding hydrogens: 9'',
                 line ''Generating 3D coordinates...'',
                 line ''First embedding failed, trying alternative method...'',
                 line ''Energy minimization may not have fully converged'',
                 line ''3D coordinates generated successfully'',
                 line ''Saving as PDB file: output.pdb'',
                 line ''Conversion successful: output.pdb''],
       files = [''output.pdb'' \<mapsto> ''HETATM'']\<rparr>,
      Inr True) \<and>
   EmbedMolecule stub_interrupted ethanol_h ETKDG = (ethanol_h, Inl KeyboardInterrupt) \<and>
   coordinates stub_interrupted True ethanol_h (terminal []) =
     (\<lparr>stdin = [], stdout = [line ''Generating 3D coordinates...''], files = Map.empty\<rparr>,
      Inl KeyboardInterrupt)"
proof -
  let ?e3 = "ethanol_h\<lparr>conformer := Coords3D\<rparr>"
  have a1: "EmbedMolecule stub_retry ethanol_h ETKDG = (ethanol_h, Inr (- 1))"
    by (simp add: stub_retry_def stub_defs)
  have a2: "EmbedMolecule stub_retry ethanol_h DefaultEmbed = (?e3, Inr 0)"
    by (simp add: stub_retry_def stub_defs)
  have a3: "MMFFOptimizeMolecule stub_retry ?e3 = (?e3, Inr 1)"
    by (simp add: stub_retry_def stub_defs)
  have b1: "EmbedMolecule stub_unembedded ethanol_h ETKDG = (ethanol_h, Inr (- 1))"
    by (simp add: stub_unembedded_def stub_defs)
  have b2: "EmbedMolecule stub_unembedded ethanol_h DefaultEmbed = (ethanol_h, Inr (- 1))"
    by (simp add: stub_unembedded_def stub_defs)
  have b3: "MMFFOptimizeMolecule stub_unembedded ethanol_h =
              (ethanol_h, Inl (Exception ''Bad Conformer Id''))"
    by (simp add: stub_unembedded_def stub_defs)
  have b4: "Compute2DCoords stub_unembedded ethanol_h = Inr (ethanol_h\<lparr>conformer := Coords2D\<rparr>)"
    by (simp add: stub_unembedded_def stub_defs)
  have r1: "coordinates stub_retry True ethanol_h (terminal []) =
     (\<lparr>stdin = [],
       stdout = [line ''Generating 3D coordinates...'',
                 line ''First embedding failed, trying alternative method...'',
                 line ''Energy minimization may not have fully converged'',
                 line ''3D coordinates generated successfully''],
       files = Map.empty\<rparr>,
      Inr ?e3)"
    using three_d_generation [where tk = stub_retry and mol_with_h = ethanol_h and ?m1.0 = ethanol_h
        and ?m2.0 = ?e3 and fallback_result = 0 and ?m3.0 = ?e3 and minimize_result = 1
        and w = "terminal []"] a1 a2 a3
    by (simp add: terminal_def)
  have r2: "coordinates stub_unembedded True ethanol_h (terminal []) =
     (\<lparr>stdin = [],
       stdout = [line ''Generating 3D coordinates...'',
                 line ''First embedding failed, trying alternative method...'',
                 line ''3D coordinate generation warning: Bad Conformer Id'',
                 line ''Using 2D coordinates...''],
       files = Map.empty\<rparr>,
      Inr (ethanol_h\<lparr>conformer := Coords2D\<rparr>))"
    using three_d_generation [where tk = stub_unembedded and mol_with_h = ethanol_h and ?m1.0 = ethanol_h
        and ?m2.0 = ethanol_h and fallback_result = "- 1" and ?m3.0 = ethanol_h
        and e = "''Bad Conformer Id''" and w = "terminal []"] b1 b2 b3 b4
    by (simp add: terminal_def)
  let ?w4 = "terminal []\<lparr>stdout := stdout (terminal []) @ parsed_lines stub_retry ''CCO'' ''pdb'' ethanol\<rparr>"
  let ?w5 = "print (''Number of atoms after adding hydrogens: '' @
                    str_nat (GetNumAtoms stub_retry ethanol_h)) ?w4"
  have f: "''pdb'' \<noteq> ''png''" by simp
  have p: "MolFromSmiles stub_retry ''CCO'' = Inr (Some ethanol)"
    by (simp add: stub_retry_def stub_defs)
  have h: "AddHs stub_retry ethanol = Inr ethanol_h"
    by (simp add: stub_retry_def stub_defs)
  have s0: "convert_smiles stub_retry ''CCO'' ''output.pdb'' ''pdb'' True 200 (terminal []) =
              after_steps ''output.pdb''
                (write_output stub_retry ''output.pdb'' ''pdb'' True 200 ethanol ?w4)"
    using three_d_generation [where tk = stub_retry and smiles_string = "''CCO''" and mol = ethanol
        and output_file = "''output.pdb''" and output_format = "''pdb''" and image_size = 200
        and v = "terminal []"] p
    by simp
  have s1: "write_output stub_retry ''output.pdb'' ''pdb'' True 200 ethanol ?w4 =
              (case coordinates stub_retry True ethanol_h ?w5 of
                 (w2, Inl e) \<Rightarrow> (w2, Inl e)
               | (w2, Inr m) \<Rightarrow> save_file stub_retry ''pdb'' ''output.pdb'' m w2)"
    using three_d_generation [where tk = stub_retry and mol = ethanol and mol_with_h = ethanol_h
        and output_file = "''output.pdb''" and output_format = "''pdb''" and image_size = 200
        and w = ?w4] f h
    by simp
  have s2: "coordinates stub_retry True ethanol_h ?w5 =
              (?w5\<lparr>stdout := stdout ?w5 @
                     [line ''Generating 3D coordinates...'',
                      line ''First embedding failed, trying alternative method...'',
                      line ''Energy minimization may not have fully converged'',
                      line ''3D coordinates generated successfully'']\<rparr>,
               Inr ?e3)"
    using three_d_generation [where tk = stub_retry and mol_with_h = ethanol_h and ?m1.0 = ethanol_h
        and ?m2.0 = ?e3 and fallback_result = 0 and ?m3.0 = ?e3 and minimize_result = 1
        and w = ?w5] a1 a2 a3
    by simp
  have l: "parsed_lines stub_retry ''CCO'' ''pdb'' ethanol =
             [line ''Converting SMILES to PDB: CCO'', line ''Parsing SMILES: CCO'',
              line ''Successfully parsed SMILES'', line ''Molecular formula: CCO'',
              line ''Number of atoms: 3'']"
    by (simp add: parsed_lines_def stub_retry_def stub_defs string_defs)
  have n: "str_nat (GetNumAtoms stub_retry ethanol_h) = ''9''"
    by (simp add: stub_retry_def stub_defs string_defs)
  have sv: "\<And>v. save_file stub_retry ''pdb'' ''output.pdb'' ?e3 v =
                 (v\<lparr>stdout := stdout v @ [line ''Saving as PDB file: output.pdb''],
                    files := (files v)(''output.pdb'' \<mapsto> ''HETATM'')\<rparr>, Inr ())"
    by (simp add: save_file_def print_def Let_def stub_retry_def stub_defs)
  have r3: "convert_smiles stub_retry ''CCO'' ''output.pdb'' ''pdb'' True 200 (terminal []) =
     (\<lparr>stdin = [],
       stdout = [line ''Converting SMILES to PDB: CCO'',
                 line ''Parsing SMILES: CCO'',
                 line ''Successfully parsed SMILES'',
                 line ''Molecular formula: CCO'',
                 line ''Number of atoms: 3'',
                 line ''Number of atoms after adding hydrogens: 9'',
                 line ''Generating 3D coordinates...'',
                 line ''First embedding failed, trying alternative method...'',
                 line ''Energy minimization may not have fully converged'',
                 line ''3D coordinates generated successfully'',
                 line ''Saving as PDB file: output.pdb'',
                 line ''Conversion successful: output.pdb''],
       files = [''output.pdb'' \<mapsto> ''HETATM'']\<rparr>,
      Inr True)"
    unfolding s0 s1 s2
    by (simp add: l n sv after_steps_def except_handler_def check_output_eq
        output_present_def terminal_def print_def)
  have k1: "EmbedMolecule stub_interrupted ethanol_h ETKDG = (ethanol_h, Inl KeyboardInterrupt)"
    by (simp add: stub_interrupted_def stub_defs)
  have r4: "coordinates stub_interrupted True ethanol_h (terminal []) =
     (\<lparr>stdin = [], stdout = [line ''Generating 3D coordinates...''], files = Map.empty\<rparr>,
      Inl KeyboardInterrupt)"
    using three_d_generation [where tk = stub_interrupted and mol_with_h = ethanol_h and ?m1.0 = ethanol_h
        and w = "terminal []"] k1
    by (simp add: terminal_def)
  from a1 a2 a3 r1 b1 b2 b3 r2 f p h r3 k1 r4 show ?thesis by (intro conjI)
qed

text \<open>
  Claim C10: the result of the default embedding is not looked at. When the SMILES string
  parses, the format is not \<open>png\<close>, hydrogens are added, the ETKDG embedding returns
  \<open>-1\<close> and the default embedding returns any value without raising (\<open>-1\<close> included),
  \<open>convert_smiles\<close> prints the one message of the first failure and goes on to the
  minimization of the molecule as the default embedding left it: what it prints, writes and
  returns from there on is decided by the outcome of that minimization, and the value that
  the default embedding returned plays no part.
\<close>

theorem fallback_result_discarded:
  assumes "output_format \<noteq> ''png''"
      and "MolFromSmiles tk smiles_string = Inr (Some mol)"
      and "AddHs tk mol = Inr mol_with_h"
      and "EmbedMolecule tk mol_with_h ETKDG = (m1, Inr (- 1))"
      and "EmbedMolecule tk m1 DefaultEmbed = (m2, Inr fallback_result)"
  shows "convert_smiles tk smiles_string output_file output_format True image_size w =
           after_steps output_file
             (case MMFFOptimizeMolecule tk m2 of
                (m3, Inr minimize_result) \<Rightarrow>
                  save_file tk output_format output_file m3
                    (w\<lparr>stdout := stdout w @
                          parsed_lines tk smiles_string output_format mol @
                          [line (''Number of atoms after adding hydrogens: '' @
                                 str_nat (GetNumAtoms tk mol_with_h)),
                           line ''Generating 3D coordinates...'',
                           line ''First embedding failed, trying alternative method...''] @
                          (if minimize_result \<noteq> 0
                           then [line ''Energy minimization may not have fully converged'']
                           else []) @
                          [line ''3D coordinates generated successfully'']\<rparr>)
              | (m3, Inl KeyboardInterrupt) \<Rightarrow>
                  (w\<lparr>stdout := stdout w @
                        parsed_lines tk smiles_string output_format mol @
                        [line (''Number of atoms after adding hydrogens: '' @
                               str_nat (GetNumAtoms tk mol_with_h)),
                         line ''Generating 3D coordinates...'',
                         line ''First embedding failed, trying alternative method...'']\<rparr>,
                   Inl KeyboardInterrupt)
              | (m3, Inl (Exception e)) \<Rightarrow>
                  (case Compute2DCoords tk m3 of
                     Inl e2 \<Rightarrow>
                       (w\<lparr>stdout := stdout w @
                             parsed_lines tk smiles_string output_format mol @
                             [line (''Number of atoms after adding hydrogens: '' @
                                    str_nat (GetNumAtoms tk mol_with_h)),
                              line ''Generating 3D coordinates...'',
                              line ''First embedding failed, trying alternative method...'',
                              line (''3D coordinate generation warning: '' @ e),
                              line ''Using 2D coordinates...'']\<rparr>,
                        Inl e2)
                   | Inr m \<Rightarrow>
                       save_file tk output_format output_file m
                         (w\<lparr>stdout := stdout w @
                               parsed_lines tk smiles_string output_format mol @
                               [line (''Number of atoms after adding hydrogens: '' @
                                      str_nat (GetNumAtoms tk mol_with_h)),
                                line ''Generating 3D coordinates...'',
                                line ''First embedding failed, trying alternative method...'',
                                line (''3D coordinate generation warning: '' @ e),
                                line ''Using 2D coordinates...'']\<rparr>)))"
proof -
  obtain m3 r where mm: "MMFFOptimizeMolecule tk m2 = (m3, r)"
    by (cases "MMFFOptimizeMolecule tk m2")
  note a = convert_smiles_after_steps [OF assms(2)]
  note b = write_output_structure [OF assms(1) assms(3)]
  note c = coordinates_fallback [OF assms(4) assms(5)]
  show ?thesis
  proof (cases r)
    case (Inr minimize_result)
    then show ?thesis by (simp add: a b c mm)
  next
    case (Inl x)
    show ?thesis
    proof (cases x)
      case KeyboardInterrupt
      then show ?thesis using Inl by (simp add: a b c mm)
    next
      case (Exception e)
      then show ?thesis using Inl
        by (cases "Compute2DCoords tk m3") (simp_all add: a b c mm)
    qed
  qed
qed

text \<open>
  Claim C10 on ethanol where both embeddings return \<open>-1\<close>: the minimization is called on
  the molecule without coordinates, it is the minimization that raises, and the file is
  written from the 2D layout.
\<close>

theorem fallback_result_discarded_witness:
  "''pdb'' \<noteq> ''png'' \<and>
   MolFromSmiles stub_unembedded ''CCO'' = Inr (Some ethanol) \<and>
   AddHs stub_unembedded ethanol = Inr ethanol_h \<and>
   EmbedMolecule stub_unembedded ethanol_h ETKDG = (ethanol_h, Inr (- 1)) \<and>
   EmbedMolecule stub_unembedded ethanol_h DefaultEmbed = (ethanol_h, Inr (- 1)) \<and>
   MMFFOptimizeMolecule stub_unembedded ethanol_h =
     (ethanol_h, Inl (Exception ''Bad Conformer Id'')) \<and>
   convert_smiles stub_unembedded ''CCO'' ''output.pdb'' ''pdb'' True 200 (terminal []) =
     (\<lparr>stdin = [],
       stdout = [line ''Converting SMILES to PDB: CCO'',
                 line ''Parsing SMILES: CCO'',
                 line ''Successfully parsed SMILES'',
                 line ''Molecular formula: CCO'',
                 line ''Number of atoms: 3'',
                 line ''Number of atoms after adding hydrogens: 9'',
                 line ''Generating 3D coordinates...'',
                 line ''First embedding failed, trying alternative method...'',
                 line ''3D coordinate generation warning: Bad Conformer Id'',
                 line ''Using 2D coordinates...'',
                 line ''Saving as PDB file: output.pdb'',
                 line ''Conversion successful: output.pdb''],
       files = [''output.pdb'' \<mapsto> ''HETATM'']\<rparr>,
      Inr True)"
proof -
  have f: "''pdb'' \<noteq> ''png''" by simp
  have p: "MolFromSmiles stub_unembedded ''CCO'' = Inr (Some ethanol)"
    by (simp add: stub_unembedded_def stub_defs)
  have h: "AddHs stub_unembedded ethanol = Inr ethanol_h"
    by (simp add: stub_unembedded_def stub_defs)
  have a: "EmbedMolecule stub_unembedded ethanol_h ETKDG = (ethanol_h, Inr (- 1))"
    by (simp add: stub_unembedded_def stub_defs)
  have b: "EmbedMolecule stub_unembedded ethanol_h DefaultEmbed = (ethanol_h, Inr (- 1))"
    by (simp add: stub_unembedded_def stub_defs)
  have c: "MMFFOptimizeMolecule stub_unembedded ethanol_h =
             (ethanol_h, Inl (Exception ''Bad Conformer Id''))"
    by (simp add: stub_unembedded_def stub_defs)
  have d: "Compute2DCoords stub_unembedded ethanol_h = Inr (ethanol_h\<lparr>conformer := Coords2D\<rparr>)"
    by (simp add: stub_unembedded_def stub_defs)
  have l: "parsed_lines stub_unembedded ''CCO'' ''pdb'' ethanol =
             [line ''Converting SMILES to PDB: CCO'', line ''Parsing SMILES: CCO'',
              line ''Successfully parsed SMILES'', line ''Molecular formula: CCO'',
              line ''Number of atoms: 3'']"
    by (simp add: parsed_lines_def stub_unembedded_def stub_defs string_defs)
  have n: "str_nat (GetNumAtoms stub_unembedded ethanol_h) = ''9''"
    by (simp add: stub_unembedded_def stub_defs string_defs)
  have s: "\<And>v. save_file stub_unembedded ''pdb'' ''output.pdb''
                   (ethanol_h\<lparr>conformer := Coords2D\<rparr>) v =
                 (v\<lparr>stdout := stdout v @ [line ''Saving as PDB file: output.pdb''],
                    files := (files v)(''output.pdb'' \<mapsto> ''HETATM'')\<rparr>, Inr ())"
    by (simp add: save_file_def print_def Let_def stub_unembedded_def stub_defs)
  have r: "convert_smiles stub_unembedded ''CCO'' ''output.pdb'' ''pdb'' True 200 (terminal []) =
     (\<lparr>stdin = [],
       stdout = [line ''Converting SMILES to PDB: CCO'',
                 line ''Parsing SMILES: CCO'',
                 line ''Successfully parsed SMILES'',
                 line ''Molecular formula: CCO'',
                 line ''Number of atoms: 3'',
                 line ''Number of atoms after adding hydrogens: 9'',
                 line ''Generating 3D coordinates...'',
                 line ''First embedding failed, trying alternative method...'',
                 line ''3D coordinate generation warning: Bad Conformer Id'',
                 line ''Using 2D coordinates...'',
                 line ''Saving as PDB file: output.pdb'',
                 line ''Conversion successful: output.pdb''],
       files = [''output.pdb'' \<mapsto> ''HETATM'']\<rparr>,
      Inr True)"
    using fallback_result_discarded [OF f p h a b, of "''output.pdb''" 200 "terminal []"]
    by (simp add: c d l n s after_steps_def except_handler_def check_output_eq
        output_present_def terminal_def print_def)
  from f p h a b c r show ?thesis by (intro conjI)
qed

section \<open>Hydrogens\<close>

text \<open>
  Claim C4, as stated: for every parsed molecule converted to \<open>pdb\<close> or \<open>mol\<close>, adding
  hydrogens gives a molecule with strictly more atoms. The sodium cation has no hydrogen to
  add: one atom before and one atom after, and the conversion succeeds.
\<close>

theorem hydrogens_count_counterexample:
  "MolFromSmiles stub_toolkit ''[Na+]'' = Inr (Some sodium) \<and>
   AddHs stub_toolkit sodium = Inr sodium \<and>
   GetNumAtoms stub_toolkit sodium = 1 \<and>
   convert_smiles stub_toolkit ''[Na+]'' ''output.pdb'' ''pdb'' False 200 (terminal []) =
     (\<lparr>stdin = [],
       stdout = [line ''Converting SMILES to PDB: [Na+]'',
                 line ''Parsing SMILES: [Na+]'',
                 line ''Successfully parsed SMILES'',
                 line ''Molecular formula: [Na+]'',
                 line ''Number of atoms: 1'',
                 line ''Number of atoms after adding hydrogens: 1'',
                 line ''Saving as PDB file: output.pdb'',
                 line ''Conversion successful: output.pdb''],
       files = [''output.pdb'' \<mapsto> ''HETATM'']\<rparr>,
      Inr True)"
  by (simp add: convert_defs stub_defs sodium_def string_defs)

text \<open>
  Claim C4, amended: for every parsed molecule converted to a format other than \<open>png\<close>,
  adding explicit hydrogens produces a new molecule whose atom count is at least as large
  as the atom count of the parsed molecule, and strictly larger exactly when the molecule
  has a hydrogen to add; \<open>convert_smiles\<close> prints the first count and then the second.
  The hydrogen addition is that of the specification, \<open>add_hydrogens\<close>.
\<close>

theorem hydrogens_count_not_smaller:
  assumes "output_format \<noteq> ''png''"
      and "MolFromSmiles tk smiles_string = Inr (Some mol)"
      and "AddHs tk = (\<lambda>m. Inr (add_hydrogens m))"
      and "GetNumAtoms tk = atoms"
  shows "AddHs tk mol = Inr (add_hydrogens mol) \<and>
         GetNumAtoms tk mol \<le> GetNumAtoms tk (add_hydrogens mol) \<and>
         (GetNumAtoms tk mol < GetNumAtoms tk (add_hydrogens mol)) = (0 < implicit_hs mol) \<and>
         (\<exists>rest.
            stdout (fst (convert_smiles tk smiles_string output_file output_format generate_3d
                           image_size w)) =
              stdout w @ parsed_lines tk smiles_string output_format mol @
              [line (''Number of atoms after adding hydrogens: '' @
                     str_nat (GetNumAtoms tk (add_hydrogens mol)))] @ rest)"
proof -
  have h: "AddHs tk mol = Inr (add_hydrogens mol)" by (simp add: assms(3))
  have le: "GetNumAtoms tk mol \<le> GetNumAtoms tk (add_hydrogens mol)"
    by (simp add: assms(4) add_hydrogens_def)
  have lt: "(GetNumAtoms tk mol < GetNumAtoms tk (add_hydrogens mol)) = (0 < implicit_hs mol)"
    by (simp add: assms(4) add_hydrogens_def)
  let ?w4 = "w\<lparr>stdout := stdout w @ parsed_lines tk smiles_string output_format mol\<rparr>"
  let ?steps = "write_output tk output_file output_format generate_3d image_size mol ?w4"
  have run: "convert_smiles tk smiles_string output_file output_format generate_3d image_size w =
               after_steps output_file ?steps"
    by (rule convert_smiles_after_steps [OF assms(2)])
  obtain ys where ys:
    "stdout (fst ?steps) =
       stdout ?w4 @ [line (''Number of atoms after adding hydrogens: '' @
                           str_nat (GetNumAtoms tk (add_hydrogens mol)))] @ ys"
    using save_structure_stdout [OF h, of output_file output_format generate_3d ?w4] assms(1)
    by (auto simp add: write_output_def)
  have "\<exists>xs. stdout (fst (after_steps output_file ?steps)) = stdout (fst ?steps) @ xs"
    by (cases ?steps)
       (simp add: after_steps_def except_handler_def check_output_eq
         split: sum.splits exn.splits)
  then obtain xs where xs: "stdout (fst (after_steps output_file ?steps)) = stdout (fst ?steps) @ xs"
    by auto
  have "\<exists>rest.
            stdout (fst (convert_smiles tk smiles_string output_file output_format generate_3d
                           image_size w)) =
              stdout w @ parsed_lines tk smiles_string output_format mol @
              [line (''Number of atoms after adding hydrogens: '' @
                     str_nat (GetNumAtoms tk (add_hydrogens mol)))] @ rest"
    using run xs ys by simp
  with h le lt show ?thesis by (intro conjI)
qed

text \<open>The amended claim C4 on ethanol: three atoms, nine with hydrogens.\<close>

theorem hydrogens_count_not_smaller_witness:
  "''pdb'' \<noteq> ''png'' \<and>
   MolFromSmiles stub_toolkit ''CCO'' = Inr (Some ethanol) \<and>
   AddHs stub_toolkit = (\<lambda>m. Inr (add_hydrogens m)) \<and>
   GetNumAtoms stub_toolkit = atoms \<and>
   AddHs stub_toolkit ethanol = Inr ethanol_h \<and>
   GetNumAtoms stub_toolkit ethanol = 3 \<and>
   GetNumAtoms stub_toolkit ethanol_h = 9 \<and>
   (\<exists>rest.
      stdout (fst (convert_smiles stub_toolkit ''CCO'' ''output.pdb'' ''pdb'' True 200
                     (terminal []))) =
        [line ''Converting SMILES to PDB: CCO'',
         line ''Parsing SMILES: CCO'',
         line ''Successfully parsed SMILES'',
         line ''Molecular formula: CCO'',
         line ''Number of atoms: 3'',
         line ''Number of atoms after adding hydrogens: 9''] @ rest)"
proof -
  have a: "''pdb'' \<noteq> ''png''" by simp
  have b: "MolFromSmiles stub_toolkit ''CCO'' = Inr (Some ethanol)"
    by (simp add: stub_defs)
  have c: "AddHs stub_toolkit = (\<lambda>m. Inr (add_hydrogens m))"
    by (simp add: stub_toolkit_def)
  have d: "GetNumAtoms stub_toolkit = atoms"
    by (simp add: stub_toolkit_def)
  have e: "add_hydrogens ethanol = ethanol_h"
    by (simp add: add_hydrogens_def ethanol_def ethanol_h_def)
  have n0: "GetNumAtoms stub_toolkit ethanol = 3" by (simp add: d ethanol_def)
  have n1: "GetNumAtoms stub_toolkit ethanol_h = 9" by (simp add: d ethanol_h_def)
  have l: "parsed_lines stub_toolkit ''CCO'' ''pdb'' ethanol =
             [line ''Converting SMILES to PDB: CCO'', line ''Parsing SMILES: CCO'',
              line ''Successfully parsed SMILES'', line ''Molecular formula: CCO'',
              line ''Number of atoms: 3'']"
    by (simp add: parsed_lines_def stub_defs string_defs)
  have s9: "str_nat 9 = ''9''" by (simp add: string_defs)
  have o: "stdout (terminal []) = []" by (simp add: terminal_def)
  note t = hydrogens_count_not_smaller [OF a b c d, of "''output.pdb''" True 200 "terminal []"]
  have h: "AddHs stub_toolkit ethanol = Inr ethanol_h" using t e by simp
  have r: "\<exists>rest.
      stdout (fst (convert_smiles stub_toolkit ''CCO'' ''output.pdb'' ''pdb'' True 200
                     (terminal []))) =
        [line ''Converting SMILES to PDB: CCO'',
         line ''Parsing SMILES: CCO'',
         line ''Successfully parsed SMILES'',
         line ''Molecular formula: CCO'',
         line ''Number of atoms: 3'',
         line ''Number of atoms after adding hydrogens: 9''] @ rest"
    using t by (simp add: e n1 l s9 o)
  from a b c d h n0 n1 r show ?thesis by (intro conjI)
qed

section \<open>A format without a writer\<close>

text \<open>
  Claim C9, as stated: with a format other than \<open>pdb\<close>, \<open>mol\<close> and \<open>png\<close> and a SMILES
  string that parses, the call returns true exactly when a non-empty file is already at the
  output path. A non-empty file is there and the embedding is interrupted: the call does
  not return true, the interrupt leaves it.
\<close>

theorem stale_file_interrupted:
  "''xyz'' \<noteq> ''pdb'' \<and> ''xyz'' \<noteq> ''mol'' \<and> ''xyz'' \<noteq> ''png'' \<and>
   MolFromSmiles stub_interrupted ''CCO'' = Inr (Some ethanol) \<and>
   output_present (files (with_file ''result.xyz'' ''stale'' (terminal []))) ''result.xyz'' \<and>
   snd (convert_smiles stub_interrupted ''CCO'' ''result.xyz'' ''xyz'' True 200
          (with_file ''result.xyz'' ''stale'' (terminal []))) = Inl KeyboardInterrupt"
  by (simp add: convert_defs stub_interrupted_def stub_defs with_file_def)

text \<open>
  Claim C9, amended: with a format other than \<open>pdb\<close>, \<open>mol\<close> and \<open>png\<close> and a SMILES
  string that parses, no writer is called (the writer step returns the world as it is) and
  the files after the call are the files before it. The call returns true only if a
  non-empty file was already at the output path, and, when hydrogen addition and the
  coordinate block return a molecule, it returns true exactly if a non-empty file was
  already there. When hydrogen addition or the coordinate block raises an \<open>Exception\<close>
  the call returns false, and when one of them raises \<^verbatim>\<open>KeyboardInterrupt\<close> the interrupt
  leaves the call, whatever is at the output path.
\<close>

theorem unknown_format_stale_file:
  assumes "output_format \<noteq> ''pdb''" "output_format \<noteq> ''mol''" "output_format \<noteq> ''png''"
      and "MolFromSmiles tk smiles_string = Inr (Some mol)"
  shows "files (fst (convert_smiles tk smiles_string output_file output_format generate_3d
                       image_size w)) = files w \<and>
         save_file tk output_format output_file m v = (v, Inr ()) \<and>
         (snd (convert_smiles tk smiles_string output_file output_format generate_3d
                 image_size w) = Inr True \<longrightarrow> output_present (files w) output_file) \<and>
         (AddHs tk mol = Inr mol_with_h \<longrightarrow>
          snd (coordinates tk generate_3d mol_with_h w) = Inr m \<longrightarrow>
            snd (convert_smiles tk smiles_string output_file output_format generate_3d
                   image_size w) = Inr (output_present (files w) output_file)) \<and>
         (AddHs tk mol = Inl (Exception e) \<longrightarrow>
            snd (convert_smiles tk smiles_string output_file output_format generate_3d
                   image_size w) = Inr False) \<and>
         (AddHs tk mol = Inr mol_with_h \<longrightarrow>
          snd (coordinates tk generate_3d mol_with_h w) = Inl (Exception e) \<longrightarrow>
            snd (convert_smiles tk smiles_string output_file output_format generate_3d
                   image_size w) = Inr False) \<and>
         (AddHs tk mol = Inl KeyboardInterrupt \<longrightarrow>
            snd (convert_smiles tk smiles_string output_file output_format generate_3d
                   image_size w) = Inl KeyboardInterrupt) \<and>
         (AddHs tk mol = Inr mol_with_h \<longrightarrow>
          snd (coordinates tk generate_3d mol_with_h w) = Inl KeyboardInterrupt \<longrightarrow>
            snd (convert_smiles tk smiles_string output_file output_format generate_3d
                   image_size w) = Inl KeyboardInterrupt)"
proof -
  let ?steps = "write_output tk output_file output_format generate_3d image_size mol w"
  let ?run = "convert_smiles tk smiles_string output_file output_format generate_3d image_size w"
  have s: "?steps = (fst ?steps, snd ?steps)" by simp
  note p = convert_smiles_parsed [OF assms(4) s]
  note o = write_output_other [OF assms(3) assms(1) assms(2), where tk = tk and p = output_file
      and g = generate_3d and sz = image_size and mol = mol and w = w and mh = mol_with_h
      and m = m]
  note q = write_output_other_result [OF assms(3) assms(1) assms(2), where tk = tk
      and p = output_file and g = generate_3d and sz = image_size and mol = mol and w = w]
  have f: "files (fst ?run) = files w" using p o by simp
  have n: "save_file tk output_format output_file m v = (v, Inr ())"
    using assms(1) assms(2) by (simp add: save_file_other)
  have t: "snd ?run = Inr True \<longrightarrow> output_present (files w) output_file"
    using p o by (auto split: sum.splits exn.splits)
  have e1: "AddHs tk mol = Inr mol_with_h \<longrightarrow>
          snd (coordinates tk generate_3d mol_with_h w) = Inr m \<longrightarrow>
            snd ?run = Inr (output_present (files w) output_file)"
    using p o by auto
  have e2: "AddHs tk mol = Inl (Exception e) \<longrightarrow> snd ?run = Inr False"
    using p q by auto
  have e3: "AddHs tk mol = Inr mol_with_h \<longrightarrow>
          snd (coordinates tk generate_3d mol_with_h w) = Inl (Exception e) \<longrightarrow>
            snd ?run = Inr False"
    using p q by auto
  have e4: "AddHs tk mol = Inl KeyboardInterrupt \<longrightarrow> snd ?run = Inl KeyboardInterrupt"
    using p q by auto
  have e5: "AddHs tk mol = Inr mol_with_h \<longrightarrow>
          snd (coordinates tk generate_3d mol_with_h w) = Inl KeyboardInterrupt \<longrightarrow>
            snd ?run = Inl KeyboardInterrupt"
    using p q by auto
  from f n t e1 e2 e3 e4 e5 show ?thesis by (intro conjI)
qed

text \<open>
  The amended claim C9 on ethanol with the format \<open>xyz\<close>: with a stale file at the output
  path the call reports success and writes nothing, without one it reports failure, and
  with the stale file and an interrupted embedding the interrupt leaves the call.
\<close>

theorem unknown_format_stale_file_witness:
  "''xyz'' \<noteq> ''pdb'' \<and> ''xyz'' \<noteq> ''mol'' \<and> ''xyz'' \<noteq> ''png'' \<and>
   MolFromSmiles stub_toolkit ''CCO'' = Inr (Some ethanol) \<and>
   AddHs stub_toolkit ethanol = Inr ethanol_h \<and>
   snd (coordinates stub_toolkit True ethanol_h (with_file ''result.xyz'' ''stale'' (terminal []))) =
     Inr (ethanol_h\<lparr>conformer := Coords3D\<rparr>) \<and>
   output_present (files (with_file ''result.xyz'' ''stale'' (terminal []))) ''result.xyz'' \<and>
   files (fst (convert_smiles stub_toolkit ''CCO'' ''result.xyz'' ''xyz'' True 200
                 (with_file ''result.xyz'' ''stale'' (terminal [])))) =
     files (with_file ''result.xyz'' ''stale'' (terminal [])) \<and>
   snd (convert_smiles stub_toolkit ''CCO'' ''result.xyz'' ''xyz'' True 200
          (with_file ''result.xyz'' ''stale'' (terminal []))) = Inr True \<and>
   \<not> output_present (files (terminal [])) ''result.xyz'' \<and>
   snd (convert_smiles stub_toolkit ''CCO'' ''result.xyz'' ''xyz'' True 200 (terminal [])) =
     Inr False \<and>
   MolFromSmiles stub_interrupted ''CCO'' = Inr (Some ethanol) \<and>
   AddHs stub_interrupted ethanol = Inr ethanol_h \<and>
   snd (coordinates stub_interrupted True ethanol_h
          (with_file ''result.xyz'' ''stale'' (terminal []))) = Inl KeyboardInterrupt \<and>
   snd (convert_smiles stub_interrupted ''CCO'' ''result.xyz'' ''xyz'' True 200
          (with_file ''result.xyz'' ''stale'' (terminal []))) = Inl KeyboardInterrupt"
proof -
  let ?w = "with_file ''result.xyz'' ''stale'' (terminal [])"
  let ?e3 = "ethanol_h\<lparr>conformer := Coords3D\<rparr>"
  have a: "''xyz'' \<noteq> ''pdb''" "''xyz'' \<noteq> ''mol''" "''xyz'' \<noteq> ''png''" by simp_all
  have b: "MolFromSmiles stub_toolkit ''CCO'' = Inr (Some ethanol)"
    by (simp add: stub_defs)
  have c: "AddHs stub_toolkit ethanol = Inr ethanol_h"
    by (simp add: stub_defs)
  have d: "snd (coordinates stub_toolkit True ethanol_h ?w) = Inr ?e3"
    by (simp add: convert_defs stub_defs with_file_def)
  have d0: "snd (coordinates stub_toolkit True ethanol_h (terminal [])) = Inr ?e3"
    by (simp add: convert_defs stub_defs)
  have e: "output_present (files ?w) ''result.xyz''"
    by (simp add: output_present_def stub_defs with_file_def)
  have e0: "\<not> output_present (files (terminal [])) ''result.xyz''"
    by (simp add: output_present_def stub_defs)
  note t = unknown_format_stale_file [OF a b, where output_file = "''result.xyz''" and m = ?e3 and v = ?w
      and w = ?w and generate_3d = True and image_size = 200 and mol_with_h = ethanol_h]
  note t0 = unknown_format_stale_file [OF a b, where output_file = "''result.xyz''" and m = ?e3
      and v = "terminal []" and w = "terminal []" and generate_3d = True and image_size = 200
      and mol_with_h = ethanol_h]
  have f: "files (fst (convert_smiles stub_toolkit ''CCO'' ''result.xyz'' ''xyz'' True 200 ?w)) =
             files ?w"
    using t by simp
  have g: "snd (convert_smiles stub_toolkit ''CCO'' ''result.xyz'' ''xyz'' True 200 ?w) = Inr True"
    using t c d e by simp
  have g0: "snd (convert_smiles stub_toolkit ''CCO'' ''result.xyz'' ''xyz'' True 200
                   (terminal [])) = Inr False"
    using t0 c d0 e0 by simp
  have b2: "MolFromSmiles stub_interrupted ''CCO'' = Inr (Some ethanol)"
    by (simp add: stub_interrupted_def stub_defs)
  have c2: "AddHs stub_interrupted ethanol = Inr ethanol_h"
    by (simp add: stub_interrupted_def stub_defs)
  have d2: "snd (coordinates stub_interrupted True ethanol_h ?w) = Inl KeyboardInterrupt"
    by (simp add: convert_defs stub_interrupted_def stub_defs with_file_def)
  note t2 = unknown_format_stale_file [OF a b2, where output_file = "''result.xyz''" and m = ?e3 and v = ?w
      and w = ?w and generate_3d = True and image_size = 200 and mol_with_h = ethanol_h]
  have g2: "snd (convert_smiles stub_interrupted ''CCO'' ''result.xyz'' ''xyz'' True 200 ?w) =
              Inl KeyboardInterrupt"
    using t2 c2 d2 by simp
  from a b c d e f g e0 g0 b2 c2 d2 g2 show ?thesis by (intro conjI)
qed

section \<open>The prompts of the interactive loop\<close>


lemma input_line:
  assumes "stdin w = Line a # rest"
  shows "input prompt w = (w\<lparr>stdout := stdout w @ [prompt], stdin := rest\<rparr>, Inr a)"
  using assms by (simp add: input_def Let_def)

lemma input_ctrl_c:
  assumes "stdin w = CtrlC # rest"
  shows "input prompt w = (w\<lparr>stdout := stdout w @ [prompt], stdin := rest\<rparr>, Inl KeyboardInterrupt)"
  using assms by (simp add: input_def Let_def)

lemma input_eof:
  assumes "stdin w = []"
  shows "input prompt w = (w\<lparr>stdout := stdout w @ [prompt]\<rparr>, Inl (Exception ''EOF when reading a line''))"
  using assms by (simp add: input_def Let_def)

lemma ask_size_line:
  assumes "stdin w = Line answer # rest"
  shows "ask_size w =
           (let (w5, image_size) =
                  size_of_input (strip answer) (w\<lparr>stdout := stdout w @ size_prompts, stdin := rest\<rparr>)
            in (w5, Inr image_size))"
proof -
  let ?w3 = "print (replicate 40 CHR ''-'')
               (print ''Enter image size in pixels (e.g., 400 for 400x400px)''
                  (print (CHR 0x0A # replicate 40 CHR ''-'') w))"
  have "stdin ?w3 = Line answer # rest" using assms by simp
  from input_line [OF this, of "''Image size (px) [default: 200px]: ''"]
  show ?thesis
    by (simp add: ask_size_def Let_def size_prompts_def print_def)
qed

lemma convert_smiles_stdin: "stdin (fst (convert_smiles tk s p fmt g sz w)) = stdin w"
proof (cases "MolFromSmiles tk s")
  case (Inl e)
  then show ?thesis
    by (simp add: convert_smiles_def convert_try_def Let_def split: exn.splits)
next
  case (Inr mo)
  show ?thesis
  proof (cases mo)
    case None
    then show ?thesis using Inr convert_smiles_unparsed [of tk s p fmt g sz w] by simp
  next
    case (Some mol)
    have "write_output tk p fmt g sz mol w =
            (fst (write_output tk p fmt g sz mol w), snd (write_output tk p fmt g sz mol w))"
      by simp
    from convert_smiles_parsed [OF _ this, of s] Inr Some show ?thesis by simp
  qed
qed

lemma convert_smiles_indep:
  assumes "same_io w v"
  shows "snd (convert_smiles tk s p fmt g sz w) = snd (convert_smiles tk s p fmt g sz v)"
proof (cases "MolFromSmiles tk s")
  case (Inl e)
  then show ?thesis
    by (simp add: convert_smiles_def convert_try_def Let_def split: exn.splits)
next
  case (Inr mo)
  show ?thesis
  proof (cases mo)
    case None
    then show ?thesis
      using Inr convert_smiles_unparsed [of tk s p fmt g sz w]
        convert_smiles_unparsed [of tk s p fmt g sz v] by simp
  next
    case (Some mol)
    let ?a = "write_output tk p fmt g sz mol w"
    let ?b = "write_output tk p fmt g sz mol v"
    have a: "?a = (fst ?a, snd ?a)" and b: "?b = (fst ?b, snd ?b)" by simp_all
    have i: "files (fst ?a) = files (fst ?b) \<and> snd ?a = snd ?b"
      using write_output_indep [OF assms, of tk p fmt g sz mol] by (simp add: same_io_def)
    from convert_smiles_parsed [OF _ a, of s] convert_smiles_parsed [OF _ b, of s] Inr Some i
    show ?thesis by (simp split: sum.splits exn.splits)
  qed
qed

lemma print_menu_stdin [simp]: "stdin (print_menu w) = stdin w"
  by (simp add: print_menu_def)

lemma ask_continue_line:
  assumes "stdin w = Line answer # rest"
  shows "ask_continue w =
           (if lower (strip answer) \<in> {''y'', ''yes''}
            then (w\<lparr>stdout := stdout w @ continue_prompts, stdin := rest\<rparr>, Inr Continue)
            else (w\<lparr>stdout := stdout w @ continue_prompts @ [line goodbye_message],
                    stdin := rest\<rparr>, Inr Break))"
proof -
  have "stdin (print (CHR 0x0A # replicate 40 CHR ''-'') w) = Line answer # rest"
    using assms by simp
  from input_line [OF this, of "''Perform another operation? (y/n): ''"]
  show ?thesis
    by (simp add: ask_continue_def Let_def continue_of_def continue_prompts_def print_def)
qed

lemma convert_and_ask_result:
  assumes "stdin w = Line answer # rest"
      and "snd (convert_smiles tk smiles name fmt g sz w) = Inr success"
  shows "snd (convert_and_ask tk smiles name fmt g sz w) =
           Inr (if lower (strip answer) \<in> {''y'', ''yes''} then Continue else Break)"
proof -
  let ?w2 = "print (replicate 40 CHR ''='')
               (print (CHR 0x0A # arrows @ '' Converting SMILES to '' @ upper fmt @ ''...'') w)"
  let ?run = "convert_smiles tk smiles name fmt g sz ?w2"
  have io: "same_io ?w2 w" by simp
  have r: "snd ?run = Inr success"
    using convert_smiles_indep [OF io, of tk smiles name fmt g sz] assms(2) by simp
  have i: "stdin (fst ?run) = Line answer # rest"
    using convert_smiles_stdin [of tk smiles name fmt g sz ?w2] assms(1) by simp
  obtain w3 where w3: "?run = (w3, Inr success)" using r by (cases ?run) simp
  have i3: "stdin w3 = Line answer # rest" using i w3 by simp
  show ?thesis
  proof (cases success)
    case True
    let ?w4 = "print (folder @ '' Output file: '' @ name)
                 (print (CHR 0x0A # check_mark @ '' Operation completed successfully!'') w3)"
    have "stdin ?w4 = Line answer # rest" using i3 by simp
    from ask_continue_line [OF this] w3 True show ?thesis
      by (simp add: convert_and_ask_def Let_def)
  next
    case False
    let ?w4 = "print (CHR 0x0A # cross_mark @ '' Operation failed!'') w3"
    have "stdin ?w4 = Line answer # rest" using i3 by simp
    from ask_continue_line [OF this] w3 False show ?thesis
      by (simp add: convert_and_ask_def Let_def)
  qed
qed

lemma convert_and_ask_interrupted:
  assumes "snd (convert_smiles tk smiles name fmt g sz w) = Inl KeyboardInterrupt"
  shows "snd (convert_and_ask tk smiles name fmt g sz w) = Inl KeyboardInterrupt"
proof -
  let ?w2 = "print (replicate 40 CHR ''='')
               (print (CHR 0x0A # arrows @ '' Converting SMILES to '' @ upper fmt @ ''...'') w)"
  let ?run = "convert_smiles tk smiles name fmt g sz ?w2"
  have io: "same_io ?w2 w" by simp
  have r: "snd ?run = Inl KeyboardInterrupt"
    using convert_smiles_indep [OF io, of tk smiles name fmt g sz] assms by simp
  then obtain w3 where w3: "?run = (w3, Inl KeyboardInterrupt)" by (cases ?run) simp
  then show ?thesis by (simp add: convert_and_ask_def Let_def)
qed

lemma menu_loop_break: "iteration tk w = (w1, Break) \<Longrightarrow> menu_loop tk w = Some w1"
  by (subst menu_loop.simps) simp

lemma menu_loop_continue: "iteration tk w = (w1, Continue) \<Longrightarrow> menu_loop tk w = menu_loop tk w1"
  by (subst menu_loop.simps) simp

text \<open>
  On a closed terminal every iteration ends in the handler of \<open>Exception\<close> and goes on:
  the loop never ends.
\<close>

lemma iteration_closed:
  assumes "stdin w = []"
  shows "snd (iteration tk w) = Continue \<and> stdin (fst (iteration tk w)) = []"
proof -
  have "stdin (print_menu w) = []" using assms by simp
  from input_eof [OF this, of "''Please select an option (1-6): ''"]
  show ?thesis
    using assms by (simp add: iteration_def iteration_try_def)
qed

lemma menu_loop_step_open:
  assumes ih: "\<And>tk w y. f tk w = Some y \<Longrightarrow> stdin w \<noteq> []"
      and step: "(case iteration tk w of (w1, Break) \<Rightarrow> Some w1
                  | (w1, Continue) \<Rightarrow> f tk w1) = Some y"
  shows "stdin w \<noteq> []"
proof
  assume c: "stdin w = []"
  obtain w1 where i: "iteration tk w = (w1, Continue)" and s: "stdin w1 = []"
    using iteration_closed [OF c, of tk] by (cases "iteration tk w") simp
  from step i have "f tk w1 = Some y" by simp
  from ih [OF this] s show False by simp
qed

lemma menu_loop_ends_open:
  assumes "menu_loop tk w = Some y"
  shows "stdin w \<noteq> []"
  by (rule menu_loop.raw_induct [where P = "\<lambda>tk w y. stdin w \<noteq> []", OF _ assms])
     (rule menu_loop_step_open)

lemma closed_terminal_never_ends: "stdin w = [] \<Longrightarrow> menu_loop tk w = None"
  using menu_loop_ends_open [of tk w] by (cases "menu_loop tk w") auto


lemmas loop_defs = iteration_def iteration_try_def convert_and_ask_def ask_continue_def
  continue_of_def ask_output_name_def output_name_of_def settings_def ask_size_def
  size_of_input_def print_menu_def input_def py_int_def digits_val_def digit_val_def
  is_digit_def

lemmas run_defs = loop_defs convert_defs stub_defs string_defs

section \<open>The image size\<close>

text \<open>
  Claim C5, as stated: a size input that is empty, non-numeric or non-positive gives an
  image size of 200, and for a non-numeric or non-positive input nothing is printed. The
  size is 200, but lines 136 and 139 print "Invalid size, using default 200px" after the
  prompt, as for the answers \<open>abc\<close> and \<open>0\<close>.
\<close>

theorem size_default_not_silent:
  "py_int ''abc'' = None \<and>
   snd (ask_size (terminal [Line ''abc''])) = Inr 200 \<and>
   stdout (fst (ask_size (terminal [Line ''abc'']))) = size_prompts @ [line invalid_size_message] \<and>
   py_int ''0'' = Some 0 \<and>
   snd (ask_size (terminal [Line ''0''])) = Inr 200 \<and>
   stdout (fst (ask_size (terminal [Line ''0'']))) = size_prompts @ [line invalid_size_message]"
  by (simp add: loop_defs size_prompts_def string_defs terminal_def print_def)


text \<open>
  Claim C5, amended: in the PNG branch, an answer to the size prompt that is empty after
  stripping gives the size 200 and nothing is printed after the prompt; an answer that is
  not an integer literal, or is an integer not above zero, gives the size 200 and the line
  "Invalid size, using default 200px" is printed after the prompt; a positive integer is
  the size, and nothing is printed after the prompt.
\<close>

theorem size_input_defaults:
  assumes "stdin w = Line answer # rest"
  shows "(strip answer = [] \<longrightarrow>
            snd (ask_size w) = Inr 200 \<and>
            stdout (fst (ask_size w)) = stdout w @ size_prompts) \<and>
         (strip answer \<noteq> [] \<longrightarrow> py_int (strip answer) = None \<longrightarrow>
            snd (ask_size w) = Inr 200 \<and>
            stdout (fst (ask_size w)) = stdout w @ size_prompts @ [line invalid_size_message]) \<and>
         (py_int (strip answer) = Some n \<longrightarrow> n \<le> 0 \<longrightarrow>
            snd (ask_size w) = Inr 200 \<and>
            stdout (fst (ask_size w)) = stdout w @ size_prompts @ [line invalid_size_message]) \<and>
         (py_int (strip answer) = Some n \<longrightarrow> 0 < n \<longrightarrow>
            snd (ask_size w) = Inr n \<and>
            stdout (fst (ask_size w)) = stdout w @ size_prompts)"
proof -
  note a = ask_size_line [OF assms]
  have e: "py_int [] = None" by (simp add: py_int_def strip_def)
  have c1: "strip answer = [] \<longrightarrow>
            snd (ask_size w) = Inr 200 \<and>
            stdout (fst (ask_size w)) = stdout w @ size_prompts"
    by (simp add: a size_of_input_def)
  have c2: "strip answer \<noteq> [] \<longrightarrow> py_int (strip answer) = None \<longrightarrow>
            snd (ask_size w) = Inr 200 \<and>
            stdout (fst (ask_size w)) = stdout w @ size_prompts @ [line invalid_size_message]"
    by (simp add: a size_of_input_def)
  have c3: "py_int (strip answer) = Some n \<longrightarrow> n \<le> 0 \<longrightarrow>
            snd (ask_size w) = Inr 200 \<and>
            stdout (fst (ask_size w)) = stdout w @ size_prompts @ [line invalid_size_message]"
    using e by (auto simp add: a size_of_input_def)
  have c4: "py_int (strip answer) = Some n \<longrightarrow> 0 < n \<longrightarrow>
            snd (ask_size w) = Inr n \<and>
            stdout (fst (ask_size w)) = stdout w @ size_prompts"
    using e by (auto simp add: a size_of_input_def)
  from c1 c2 c3 c4 show ?thesis by (intro conjI)
qed

text \<open>
  The amended claim C5 on a blank answer, on \<open>4x4\<close>, on \<open>-40\<close> and on \<open>400\<close>.
\<close>

theorem size_input_defaults_witness:
  "stdin (terminal [Line '' '']) = [Line '' ''] \<and> strip '' '' = [] \<and>
   snd (ask_size (terminal [Line '' ''])) = Inr 200 \<and>
   stdout (fst (ask_size (terminal [Line '' '']))) = size_prompts \<and>
   stdin (terminal [Line ''4x4'']) = [Line ''4x4''] \<and>
   strip ''4x4'' \<noteq> [] \<and> py_int (strip ''4x4'') = None \<and>
   snd (ask_size (terminal [Line ''4x4''])) = Inr 200 \<and>
   stdout (fst (ask_size (terminal [Line ''4x4'']))) = size_prompts @ [line invalid_size_message] \<and>
   stdin (terminal [Line ''-40'']) = [Line ''-40''] \<and>
   py_int (strip ''-40'') = Some (- 40) \<and>
   snd (ask_size (terminal [Line ''-40''])) = Inr 200 \<and>
   stdout (fst (ask_size (terminal [Line ''-40'']))) = size_prompts @ [line invalid_size_message] \<and>
   stdin (terminal [Line ''400'']) = [Line ''400''] \<and>
   py_int (strip ''400'') = Some 400 \<and>
   snd (ask_size (terminal [Line ''400''])) = Inr 400 \<and>
   stdout (fst (ask_size (terminal [Line ''400'']))) = size_prompts"
proof -
  have o: "\<And>evs. stdout (terminal evs) = []" by (simp add: terminal_def)
  have i1: "stdin (terminal [Line '' '']) = [Line '' '']" by (simp add: terminal_def)
  have i2: "stdin (terminal [Line ''4x4'']) = [Line ''4x4'']" by (simp add: terminal_def)
  have i3: "stdin (terminal [Line ''-40'']) = [Line ''-40'']" by (simp add: terminal_def)
  have i4: "stdin (terminal [Line ''400'']) = [Line ''400'']" by (simp add: terminal_def)
  have s1: "strip '' '' = []" by (simp add: string_defs)
  have s2: "strip ''4x4'' \<noteq> []" by (simp add: string_defs)
  have p2: "py_int (strip ''4x4'') = None"
    by (simp add: py_int_def is_digit_def string_defs)
  have p3: "py_int (strip ''-40'') = Some (- 40)"
    by (simp add: py_int_def is_digit_def digits_val_def digit_val_def string_defs)
  have p4: "py_int (strip ''400'') = Some 400"
    by (simp add: py_int_def is_digit_def digits_val_def digit_val_def string_defs)
  have r1: "snd (ask_size (terminal [Line '' ''])) = Inr 200 \<and>
            stdout (fst (ask_size (terminal [Line '' '']))) = size_prompts"
    using size_input_defaults [OF i1] s1 by (simp add: o)
  have r2: "snd (ask_size (terminal [Line ''4x4''])) = Inr 200 \<and>
            stdout (fst (ask_size (terminal [Line ''4x4'']))) =
              size_prompts @ [line invalid_size_message]"
    using size_input_defaults [OF i2] s2 p2 by (simp add: o)
  have r3: "snd (ask_size (terminal [Line ''-40''])) = Inr 200 \<and>
            stdout (fst (ask_size (terminal [Line ''-40'']))) =
              size_prompts @ [line invalid_size_message]"
    using size_input_defaults [OF i3, of "- 40"] p3 by (simp add: o)
  have r4: "snd (ask_size (terminal [Line ''400''])) = Inr 400 \<and>
            stdout (fst (ask_size (terminal [Line ''400'']))) = size_prompts"
    using size_input_defaults [OF i4, of 400] p4 by (simp add: o)
  from i1 s1 r1 i2 s2 p2 r2 i3 p3 r3 i4 p4 r4 show ?thesis by simp
qed

section \<open>The output file name\<close>



section \<open>The handlers of an iteration\<close>

text \<open>
  Claim C7: when the body of an iteration raises \<^verbatim>\<open>KeyboardInterrupt\<close>, the iteration
  prints the goodbye line of the interrupt handler and breaks, and the loop ends with that
  world. When it raises any \<open>Exception\<close>, the iteration prints "An error occurred" with the
  exception's text and the loop goes on with the next iteration. An interrupt at the menu
  prompt and an interrupt that leaves \<open>convert_smiles\<close> are such interrupts; a closed
  terminal raises the \<open>Exception\<close> of the end of input.
\<close>

theorem iteration_handlers:
  "(iteration_try tk (print_menu w) = (w1, Inl KeyboardInterrupt) \<longrightarrow>
      iteration tk w = (print interrupted_message w1, Break) \<and>
      menu_loop tk w = Some (print interrupted_message w1)) \<and>
   (iteration_try tk (print_menu w) = (w1, Inl (Exception e)) \<longrightarrow>
      iteration tk w = (print (error_message e) w1, Continue) \<and>
      menu_loop tk w = menu_loop tk (print (error_message e) w1)) \<and>
   (stdin w = CtrlC # rest \<longrightarrow>
      snd (iteration_try tk (print_menu w)) = Inl KeyboardInterrupt) \<and>
   (stdin w = [] \<longrightarrow>
      snd (iteration_try tk (print_menu w)) = Inl (Exception ''EOF when reading a line'')) \<and>
   (snd (convert_smiles tk smiles name fmt g sz v) = Inl KeyboardInterrupt \<longrightarrow>
      snd (convert_and_ask tk smiles name fmt g sz v) = Inl KeyboardInterrupt)"
proof -
  have c1: "iteration_try tk (print_menu w) = (w1, Inl KeyboardInterrupt) \<longrightarrow>
      iteration tk w = (print interrupted_message w1, Break) \<and>
      menu_loop tk w = Some (print interrupted_message w1)"
  proof
    assume "iteration_try tk (print_menu w) = (w1, Inl KeyboardInterrupt)"
    then have "iteration tk w = (print interrupted_message w1, Break)"
      by (simp add: iteration_def)
    then show "iteration tk w = (print interrupted_message w1, Break) \<and>
      menu_loop tk w = Some (print interrupted_message w1)"
      by (simp add: menu_loop_break)
  qed
  have c2: "iteration_try tk (print_menu w) = (w1, Inl (Exception e)) \<longrightarrow>
      iteration tk w = (print (error_message e) w1, Continue) \<and>
      menu_loop tk w = menu_loop tk (print (error_message e) w1)"
  proof
    assume "iteration_try tk (print_menu w) = (w1, Inl (Exception e))"
    then have "iteration tk w = (print (error_message e) w1, Continue)"
      by (simp add: iteration_def)
    then show "iteration tk w = (print (error_message e) w1, Continue) \<and>
      menu_loop tk w = menu_loop tk (print (error_message e) w1)"
      by (simp add: menu_loop_continue)
  qed
  have c3: "stdin w = CtrlC # rest \<longrightarrow>
      snd (iteration_try tk (print_menu w)) = Inl KeyboardInterrupt"
  proof
    assume "stdin w = CtrlC # rest"
    then have "stdin (print_menu w) = CtrlC # rest" by simp
    from input_ctrl_c [OF this] show "snd (iteration_try tk (print_menu w)) = Inl KeyboardInterrupt"
      by (simp add: iteration_try_def)
  qed
  have c4: "stdin w = [] \<longrightarrow>
      snd (iteration_try tk (print_menu w)) = Inl (Exception ''EOF when reading a line'')"
  proof
    assume "stdin w = []"
    then have "stdin (print_menu w) = []" by simp
    from input_eof [OF this]
    show "snd (iteration_try tk (print_menu w)) = Inl (Exception ''EOF when reading a line'')"
      by (simp add: iteration_try_def)
  qed
  have c5: "snd (convert_smiles tk smiles name fmt g sz v) = Inl KeyboardInterrupt \<longrightarrow>
      snd (convert_and_ask tk smiles name fmt g sz v) = Inl KeyboardInterrupt"
    by (simp add: convert_and_ask_interrupted)
  from c1 c2 c3 c4 c5 show ?thesis by (intro conjI)
qed

text \<open>
  Claim C7 on an interrupt at the file name prompt, on a terminal closed at the SMILES
  prompt, and on an interrupt and a closed terminal at the menu prompt.
\<close>

theorem iteration_handlers_witness:
  "snd (iteration_try stub_toolkit (print_menu (terminal [Line ''1'', Line ''CCO'', CtrlC]))) =
     Inl KeyboardInterrupt \<and>
   snd (iteration stub_toolkit (terminal [Line ''1'', Line ''CCO'', CtrlC])) = Break \<and>
   menu_loop stub_toolkit (terminal [Line ''1'', Line ''CCO'', CtrlC]) =
     Some (print interrupted_message
             (fst (iteration_try stub_toolkit
                     (print_menu (terminal [Line ''1'', Line ''CCO'', CtrlC]))))) \<and>
   snd (iteration_try stub_toolkit (print_menu (terminal [Line ''1'']))) =
     Inl (Exception ''EOF when reading a line'') \<and>
   snd (iteration stub_toolkit (terminal [Line ''1''])) = Continue \<and>
   menu_loop stub_toolkit (terminal [Line ''1'']) =
     menu_loop stub_toolkit
       (print (error_message ''EOF when reading a line'')
          (fst (iteration_try stub_toolkit (print_menu (terminal [Line ''1'']))))) \<and>
   stdin (terminal [CtrlC]) = [CtrlC] \<and>
   snd (iteration_try stub_toolkit (print_menu (terminal [CtrlC]))) = Inl KeyboardInterrupt \<and>
   stdin (terminal []) = [] \<and>
   snd (iteration_try stub_toolkit (print_menu (terminal []))) =
     Inl (Exception ''EOF when reading a line'')"
proof -
  let ?a = "iteration_try stub_toolkit (print_menu (terminal [Line ''1'', Line ''CCO'', CtrlC]))"
  let ?b = "iteration_try stub_toolkit (print_menu (terminal [Line ''1'']))"
  have sa: "snd ?a = Inl KeyboardInterrupt" by (simp add: run_defs)
  have sb: "snd ?b = Inl (Exception ''EOF when reading a line'')" by (simp add: run_defs)
  have a: "?a = (fst ?a, Inl KeyboardInterrupt)" using sa by (metis prod.collapse)
  have b: "?b = (fst ?b, Inl (Exception ''EOF when reading a line''))"
    using sb by (metis prod.collapse)
  have i1: "stdin (terminal [CtrlC]) = [CtrlC]" by (simp add: terminal_def)
  have i2: "stdin (terminal ([] :: stdin_event list)) = []" by (simp add: terminal_def)
  note ta = iteration_handlers [where tk = stub_toolkit and w = "terminal [Line ''1'', Line ''CCO'', CtrlC]"
      and ?w1.0 = "fst ?a"]
  note tb = iteration_handlers [where tk = stub_toolkit and w = "terminal [Line ''1'']"
      and ?w1.0 = "fst ?b" and e = "''EOF when reading a line''"]
  note tc = iteration_handlers [where tk = stub_toolkit and w = "terminal [CtrlC]" and rest = "[]"]
  note td = iteration_handlers [where tk = stub_toolkit and w = "terminal []"]
  have r1: "snd (iteration stub_toolkit (terminal [Line ''1'', Line ''CCO'', CtrlC])) = Break"
    using ta a by simp
  have r2: "menu_loop stub_toolkit (terminal [Line ''1'', Line ''CCO'', CtrlC]) =
              Some (print interrupted_message (fst ?a))"
    using ta a by simp
  have r3: "snd (iteration stub_toolkit (terminal [Line ''1''])) = Continue"
    using tb b by simp
  have r4: "menu_loop stub_toolkit (terminal [Line ''1'']) =
              menu_loop stub_toolkit (print (error_message ''EOF when reading a line'') (fst ?b))"
    using tb b by simp
  have r5: "snd (iteration_try stub_toolkit (print_menu (terminal [CtrlC]))) =
              Inl KeyboardInterrupt"
    using tc i1 by simp
  have r6: "snd (iteration_try stub_toolkit (print_menu (terminal []))) =
              Inl (Exception ''EOF when reading a line'')"
    using td i2 by simp
  from sa r1 r2 sb r3 r4 i1 r5 i2 r6 show ?thesis by (intro conjI)
qed

section \<open>The continue prompt\<close>

text \<open>
  Claim C8: the answer to the continue prompt is stripped and put in lower case. When it is
  \<open>y\<close> or \<open>yes\<close> the iteration ends without a break and the loop runs another
  iteration; every other answer prints the goodbye line and breaks, and the loop ends. The
  prompt is reached whenever the conversion returns, with either result.
\<close>

theorem continue_prompt_decides:
  assumes "stdin w = Line answer # rest"
  shows "(lower (strip answer) \<in> {''y'', ''yes''} \<longrightarrow>
            ask_continue w =
              (w\<lparr>stdout := stdout w @ continue_prompts, stdin := rest\<rparr>, Inr Continue)) \<and>
         (lower (strip answer) \<notin> {''y'', ''yes''} \<longrightarrow>
            ask_continue w =
              (w\<lparr>stdout := stdout w @ continue_prompts @ [line goodbye_message],
                 stdin := rest\<rparr>, Inr Break)) \<and>
         (snd (convert_smiles tk smiles name fmt g sz w) = Inr success \<longrightarrow>
            snd (convert_and_ask tk smiles name fmt g sz w) =
              Inr (if lower (strip answer) \<in> {''y'', ''yes''} then Continue else Break)) \<and>
         (iteration_try tk (print_menu v) = (v1, Inr Break) \<longrightarrow> menu_loop tk v = Some v1) \<and>
         (iteration_try tk (print_menu v) = (v1, Inr Continue) \<longrightarrow>
            menu_loop tk v = menu_loop tk v1)"
proof -
  note a = ask_continue_line [OF assms]
  have c1: "lower (strip answer) \<in> {''y'', ''yes''} \<longrightarrow>
            ask_continue w =
              (w\<lparr>stdout := stdout w @ continue_prompts, stdin := rest\<rparr>, Inr Continue)"
    using a by simp
  have c2: "lower (strip answer) \<notin> {''y'', ''yes''} \<longrightarrow>
            ask_continue w =
              (w\<lparr>stdout := stdout w @ continue_prompts @ [line goodbye_message],
                 stdin := rest\<rparr>, Inr Break)"
    using a by simp
  have c3: "snd (convert_smiles tk smiles name fmt g sz w) = Inr success \<longrightarrow>
            snd (convert_and_ask tk smiles name fmt g sz w) =
              Inr (if lower (strip answer) \<in> {''y'', ''yes''} then Continue else Break)"
    using convert_and_ask_result [OF assms] by blast
  have c4: "iteration_try tk (print_menu v) = (v1, Inr Break) \<longrightarrow> menu_loop tk v = Some v1"
    by (simp add: menu_loop_break iteration_def)
  have c5: "iteration_try tk (print_menu v) = (v1, Inr Continue) \<longrightarrow>
            menu_loop tk v = menu_loop tk v1"
    by (simp add: menu_loop_continue iteration_def)
  from c1 c2 c3 c4 c5 show ?thesis by (intro conjI)
qed


text \<open>
  Claim C8 on the answers \<open>YES\<close> with blanks around it and \<open>ok\<close>, and on two whole
  iterations of the menu that convert ethanol to PDB and answer \<open>n\<close> and \<open>y\<close>.
\<close>

theorem continue_prompt_decides_witness:
  "stdin (terminal [Line '' YES '']) = [Line '' YES ''] \<and>
   lower (strip '' YES '') \<in> {''y'', ''yes''} \<and>
   snd (ask_continue (terminal [Line '' YES ''])) = Inr Continue \<and>
   stdin (terminal [Line ''ok'']) = [Line ''ok''] \<and>
   lower (strip ''ok'') \<notin> {''y'', ''yes''} \<and>
   ask_continue (terminal [Line ''ok'']) =
     (\<lparr>stdin = [], stdout = continue_prompts @ [line goodbye_message], files = Map.empty\<rparr>,
      Inr Break) \<and>
   snd (convert_smiles stub_toolkit ''CCO'' ''output.pdb'' ''pdb'' True 200 (terminal [Line ''ok''])) =
     Inr True \<and>
   snd (convert_and_ask stub_toolkit ''CCO'' ''output.pdb'' ''pdb'' True 200
          (terminal [Line ''ok''])) = Inr Break \<and>
   snd (iteration_try stub_toolkit
          (print_menu (terminal [Line ''1'', Line ''CCO'', Line [], Line ''n'']))) = Inr Break \<and>
   menu_loop stub_toolkit (terminal [Line ''1'', Line ''CCO'', Line [], Line ''n'']) =
     Some (fst (iteration_try stub_toolkit
                  (print_menu (terminal [Line ''1'', Line ''CCO'', Line [], Line ''n''])))) \<and>
   snd (iteration_try stub_toolkit
          (print_menu (terminal [Line ''1'', Line ''CCO'', Line [], Line ''y'', Line ''6'']))) =
     Inr Continue \<and>
   menu_loop stub_toolkit (terminal [Line ''1'', Line ''CCO'', Line [], Line ''y'', Line ''6'']) =
     menu_loop stub_toolkit
       (fst (iteration_try stub_toolkit
               (print_menu (terminal [Line ''1'', Line ''CCO'', Line [], Line ''y'', Line ''6'']))))"
proof -
  let ?vn = "terminal [Line ''1'', Line ''CCO'', Line [], Line ''n'']"
  let ?vy = "terminal [Line ''1'', Line ''CCO'', Line [], Line ''y'', Line ''6'']"
  let ?a = "iteration_try stub_toolkit (print_menu ?vn)"
  let ?b = "iteration_try stub_toolkit (print_menu ?vy)"
  have i1: "stdin (terminal [Line '' YES '']) = [Line '' YES '']" by (simp add: terminal_def)
  have i2: "stdin (terminal [Line ''ok'']) = [Line ''ok'']" by (simp add: terminal_def)
  have e1: "lower (strip '' YES '') = ''yes''" by (simp add: string_defs)
  have e2: "lower (strip ''ok'') = ''ok''" by (simp add: string_defs)
  have l1: "lower (strip '' YES '') \<in> {''y'', ''yes''}" by (simp add: e1)
  have l2: "lower (strip ''ok'') \<notin> {''y'', ''yes''}" by (simp add: e2)
  have cv: "snd (convert_smiles stub_toolkit ''CCO'' ''output.pdb'' ''pdb'' True 200
                   (terminal [Line ''ok''])) = Inr True"
    by (simp add: convert_defs stub_defs)
  have sa: "snd ?a = Inr Break" by (simp add: run_defs)
  have sb: "snd ?b = Inr Continue" by (simp add: run_defs)
  have a: "?a = (fst ?a, Inr Break)" using sa by (metis prod.collapse)
  have b: "?b = (fst ?b, Inr Continue)" using sb by (metis prod.collapse)
  note t1 = continue_prompt_decides [OF i1, where tk = stub_toolkit and v = ?vn and ?v1.0 = "fst ?a"]
  note t2 = continue_prompt_decides [OF i2, where tk = stub_toolkit and smiles = "''CCO''"
      and name = "''output.pdb''" and fmt = "''pdb''" and g = True and sz = 200
      and success = True and v = ?vn and ?v1.0 = "fst ?a"]
  note t3 = continue_prompt_decides [OF i2, where tk = stub_toolkit and v = ?vy and ?v1.0 = "fst ?b"]
  have r1: "snd (ask_continue (terminal [Line '' YES ''])) = Inr Continue"
    using t1 by (simp add: e1)
  have r2: "ask_continue (terminal [Line ''ok'']) =
     (\<lparr>stdin = [], stdout = continue_prompts @ [line goodbye_message], files = Map.empty\<rparr>,
      Inr Break)"
    using t2 by (simp add: e2 terminal_def)
  have r3: "snd (convert_and_ask stub_toolkit ''CCO'' ''output.pdb'' ''pdb'' True 200
                   (terminal [Line ''ok''])) = Inr Break"
    using t2 cv by (simp add: e2)
  have r4: "menu_loop stub_toolkit ?vn = Some (fst ?a)" using t2 a by simp
  have r5: "menu_loop stub_toolkit ?vy = menu_loop stub_toolkit (fst ?b)" using t3 b by simp
  from i1 l1 r1 i2 l2 r2 cv r3 sa r4 sb r5 show ?thesis by (intro conjI)
qed

end
